theory Spec2Isabelle
  imports Main "HOL-Library.Word"
begin

section \<open>JavaScript values\<close>

text \<open>
  A JavaScript string is a sequence of UTF-16 code units, and \<open>.length\<close> counts
  code units; so does Joi's \<open>min\<close>/\<open>max\<close> and a regular expression without the
  \<open>u\<close> flag. String literals of the source are ASCII and are written through \<open>js\<close>.
\<close>

type_synonym jsstring = "16 word list"

definition js :: "string \<Rightarrow> jsstring" where
  "js s = map of_char s"

text \<open>
  The values a handler sees in a parsed JSON body, in a vendor's reply and in the object
  it hands to \<open>res.json\<close>. \<open>JUndefined\<close> is the value of a missing property.
  A number is kept as an integer: the code only subtracts clock readings, takes lengths
  and tests a number for being zero.
\<close>

datatype json =
    JUndefined
  | JNull
  | JBool bool
  | JNum int
  | JStr jsstring
  | JArr "json list"
  | JObj "(jsstring \<times> json) list"

definition obj :: "(string \<times> json) list \<Rightarrow> json" where
  "obj kvs = JObj (map (\<lambda>(k, v). (js k, v)) kvs)"

definition str :: "string \<Rightarrow> json" where
  "str s = JStr (js s)"

text \<open>What a \<open>throw\<close> carries: a \<open>TypeError\<close> of the engine, or the rejection of a
  vendor call, an \<open>Error\<close> with its \<open>message\<close> and, for an HTTP error reply, axios's
  \<open>error.response\<close> (\<open>status\<close> and \<open>data\<close>).\<close>

datatype js_exn =
    TypeError
  | Rejected (message: jsstring) (response: "(nat \<times> json) option")

text \<open>Truthiness, as \<open>a || b\<close> and \<open>if (x)\<close> test it.\<close>

fun truthy :: "json \<Rightarrow> bool" where
  "truthy JUndefined = False"
| "truthy JNull = False"
| "truthy (JBool b) = b"
| "truthy (JNum n) = (n \<noteq> 0)"
| "truthy (JStr s) = (s \<noteq> [])"
| "truthy (JArr xs) = True"
| "truthy (JObj kvs) = True"

definition js_or :: "json \<Rightarrow> json \<Rightarrow> json" where
  "js_or a b = (if truthy a then a else b)"


text \<open>
  \<open>v.name\<close> for the property names the handlers read (\<open>output\<close>, \<open>result\<close>,
  \<open>choices\<close>, \<open>message\<close>, \<open>content\<close>, \<open>input\<close>): none of them is a property
  of a string, a number, a boolean or an array, nor inherited by an object. Reading a
  property of \<open>undefined\<close> or \<open>null\<close> throws.
\<close>

fun get_prop :: "json \<Rightarrow> string \<Rightarrow> js_exn + json" where
  "get_prop JUndefined k = Inl TypeError"
| "get_prop JNull k = Inl TypeError"
| "get_prop (JObj kvs) k = Inr (case map_of kvs (js k) of Some v \<Rightarrow> v | None \<Rightarrow> JUndefined)"
| "get_prop v k = Inr JUndefined"

text \<open>\<open>v.length\<close>.\<close>

fun js_length :: "json \<Rightarrow> js_exn + json" where
  "js_length JUndefined = Inl TypeError"
| "js_length JNull = Inl TypeError"
| "js_length (JStr s) = Inr (JNum (int (length s)))"
| "js_length (JArr xs) = Inr (JNum (int (length xs)))"
| "js_length (JObj kvs) = Inr (case map_of kvs (js ''length'') of Some v \<Rightarrow> v | None \<Rightarrow> JUndefined)"
| "js_length v = Inr JUndefined"

text \<open>Optional chaining: \<open>v?.name\<close> and \<open>v?.[0]\<close> give \<open>undefined\<close> on
  \<open>undefined\<close> and \<open>null\<close> and never throw.\<close>

fun opt_prop :: "json \<Rightarrow> string \<Rightarrow> json" where
  "opt_prop (JObj kvs) k = (case map_of kvs (js k) of Some v \<Rightarrow> v | None \<Rightarrow> JUndefined)"
| "opt_prop v k = JUndefined"

fun opt_index0 :: "json \<Rightarrow> json" where
  "opt_index0 (JArr xs) = (case xs of [] \<Rightarrow> JUndefined | x # _ \<Rightarrow> x)"
| "opt_index0 (JStr s) = (case s of [] \<Rightarrow> JUndefined | c # _ \<Rightarrow> JStr [c])"
| "opt_index0 (JObj kvs) = (case map_of kvs (js ''0'') of Some v \<Rightarrow> v | None \<Rightarrow> JUndefined)"
| "opt_index0 v = JUndefined"

text \<open>The fields of an object, in order; a request body is a JSON object.\<close>

type_synonym json_fields = "(jsstring \<times> json) list"

definition field_of :: "json_fields \<Rightarrow> string \<Rightarrow> json" where
  "field_of b k = (case map_of b (js k) of Some v \<Rightarrow> v | None \<Rightarrow> JUndefined)"

text \<open>An HTTP response as the handler leaves it: \<open>res.status(n).json(body)\<close>;
  \<open>res.json(body)\<close> alone answers 200.\<close>

record response =
  status :: nat
  body :: json

section \<open>Password strength (index.js, \<open>validatePasswordStrength\<close>)\<close>

text \<open>\<open>/[...]/.test(password)\<close> for a single character class: scan the code units
  for the first one in the class.\<close>

fun regex_test :: "(16 word \<Rightarrow> bool) \<Rightarrow> jsstring \<Rightarrow> bool" where
  "regex_test cls [] = False"
| "regex_test cls (c # cs) = (if cls c then True else regex_test cls cs)"

definition lower_class :: "16 word \<Rightarrow> bool" where
  "lower_class c = (0x61 \<le> c \<and> c \<le> 0x7A)"

definition upper_class :: "16 word \<Rightarrow> bool" where
  "upper_class c = (0x41 \<le> c \<and> c \<le> 0x5A)"

definition digit_class :: "16 word \<Rightarrow> bool" where
  "digit_class c = (0x30 \<le> c \<and> c \<le> 0x39)"

text \<open>The class \<open>[!@#$%^&*(),.?":{}|<>]\<close>; 0x22 is the double quote.\<close>

definition special_chars :: jsstring where
  "special_chars = js ''!@#$%^&*(),.?'' @ [0x22] @ js '':{}|<>''"

definition special_class :: "16 word \<Rightarrow> bool" where
  "special_class c = (c \<in> set special_chars)"

record checks =
  length_chk :: bool
  lowercase :: bool
  uppercase :: bool
  number :: bool
  special :: bool

definition password_checks :: "jsstring \<Rightarrow> checks" where
  "password_checks password =
     \<lparr> length_chk = (length password \<ge> 6 \<and> length password \<le> 128),
       lowercase = regex_test lower_class password,
       uppercase = regex_test upper_class password,
       number = regex_test digit_class password,
       special = regex_test special_class password \<rparr>"

text \<open>\<open>Object.values(checks)\<close>, in insertion order.\<close>

definition object_values :: "checks \<Rightarrow> bool list" where
  "object_values c = [length_chk c, lowercase c, uppercase c, number c, special c]"

definition msg_length :: jsstring where
  "msg_length = js ''Password must be between 6 and 128 characters''"

definition msg_lowercase :: jsstring where
  "msg_lowercase = js ''Password must contain at least one lowercase letter''"

definition msg_uppercase :: jsstring where
  "msg_uppercase = js ''Password must contain at least one uppercase letter''"

definition msg_number :: jsstring where
  "msg_number = js ''Password must contain at least one number''"

definition msg_special :: jsstring where
  "msg_special =
     js ''Password must contain at least one special character ('' @ special_chars @ js '')''"

record password_strength =
  isValid :: bool
  errors :: "jsstring list"
  strength :: nat

text \<open>\<open>errors.push\<close> appends; the five \<open>if\<close>s run in the order of the source.\<close>

definition validatePasswordStrength :: "jsstring \<Rightarrow> password_strength" where
  "validatePasswordStrength password =
     (let checks = password_checks password;
          errors = [];
          errors = (if \<not> length_chk checks then errors @ [msg_length] else errors);
          errors = (if \<not> lowercase checks then errors @ [msg_lowercase] else errors);
          errors = (if \<not> uppercase checks then errors @ [msg_uppercase] else errors);
          errors = (if \<not> number checks then errors @ [msg_number] else errors);
          errors = (if \<not> special checks then errors @ [msg_special] else errors)
      in \<lparr> isValid = list_all (\<lambda>check. check) (object_values checks),
           errors = errors,
           strength = length (filter (\<lambda>check. check) (object_values checks)) \<rparr>)"

text \<open>The five rules in the words of the specification.\<close>

definition rule_length :: "jsstring \<Rightarrow> bool" where
  "rule_length p = (6 \<le> length p \<and> length p \<le> 128)"

definition rule_lowercase :: "jsstring \<Rightarrow> bool" where
  "rule_lowercase p = (\<exists>i < length p. 0x61 \<le> p ! i \<and> p ! i \<le> 0x7A)"

definition rule_uppercase :: "jsstring \<Rightarrow> bool" where
  "rule_uppercase p = (\<exists>i < length p. 0x41 \<le> p ! i \<and> p ! i \<le> 0x5A)"

definition rule_digit :: "jsstring \<Rightarrow> bool" where
  "rule_digit p = (\<exists>i < length p. 0x30 \<le> p ! i \<and> p ! i \<le> 0x39)"

definition rule_special :: "jsstring \<Rightarrow> bool" where
  "rule_special p = (\<exists>i < length p. p ! i \<in> set special_chars)"

definition satisfied_rules :: "jsstring \<Rightarrow> nat" where
  "satisfied_rules p =
     of_bool (rule_length p) + of_bool (rule_lowercase p) + of_bool (rule_uppercase p)
     + of_bool (rule_digit p) + of_bool (rule_special p)"

section \<open>Rate limiter configuration (middleware/rateLimit.js, index.js)\<close>

text \<open>The options object handed to \<open>rateLimit\<close>. \<open>handler\<close> is the response the
  limiter's own \<open>handler\<close> function sends; \<open>authLimiter\<close> declares none.\<close>

record limiter =
  windowMs :: nat
  max_limit :: nat
  limit_message :: json
  standardHeaders :: bool
  legacyHeaders :: bool
  handler :: "response option"

definition limiter_body :: "string \<Rightarrow> json" where
  "limiter_body text = obj [(''error'', str text), (''retryAfter'', str ''15 minutes'')]"

definition make_limiter :: "nat \<Rightarrow> string \<Rightarrow> limiter" where
  "make_limiter m text =
     \<lparr> windowMs = 15 * 60 * 1000,
       max_limit = m,
       limit_message = limiter_body text,
       standardHeaders = True,
       legacyHeaders = False,
       handler = Some \<lparr> status = 429, body = limiter_body text \<rparr> \<rparr>"

definition generalLimiter :: limiter where
  "generalLimiter = make_limiter 100 ''Too many requests from this IP, please try again later.''"

definition aiLimiter :: limiter where
  "aiLimiter = make_limiter 30 ''Too many AI requests from this IP, please try again later.''"

definition chainLimiter :: limiter where
  "chainLimiter = make_limiter 10 ''Too many chain requests from this IP, please try again later.''"

definition devLimiter :: limiter where
  "devLimiter = make_limiter 1000 ''Development rate limit exceeded.''"

text \<open>\<open>authLimiter\<close> of index.js; its message holds the timestamp taken when the module
  was loaded.\<close>

definition authLimiter :: "jsstring \<Rightarrow> limiter" where
  "authLimiter loaded_iso =
     \<lparr> windowMs = 15 * 60 * 1000,
       max_limit = 5,
       limit_message = obj [(''error'', str ''Too many authentication attempts, please try again later.''),
                            (''metadata'', obj [(''timestamp'', JStr loaded_iso)])],
       standardHeaders = True,
       legacyHeaders = False,
       handler = None \<rparr>"

record rate_limiters =
  general :: limiter
  ai :: limiter
  chain :: limiter

text \<open>\<open>process.env.NODE_ENV\<close> is a string or \<open>undefined\<close>.\<close>

definition getRateLimiters :: "jsstring option \<Rightarrow> rate_limiters" where
  "getRateLimiters NODE_ENV =
     (if NODE_ENV = Some (js ''development'')
      then \<lparr> general = devLimiter, ai = devLimiter, chain = devLimiter \<rparr>
      else \<lparr> general = generalLimiter, ai = aiLimiter, chain = chainLimiter \<rparr>)"

section \<open>The clock and the response envelope\<close>

text \<open>
  A handler reads the clock when it starts (\<open>startTime = Date.now()\<close>), once more when
  it computes \<open>totalTime = Date.now() - startTime\<close>, and takes
  \<open>new Date().toISOString()\<close> for the timestamp. The three readings are inputs of the
  model: \<open>startTime\<close>, \<open>now\<close> and \<open>stamp\<close>.
\<close>

definition metadata :: "int \<Rightarrow> int \<Rightarrow> jsstring \<Rightarrow> json" where
  "metadata startTime now stamp =
     obj [(''processingTime'', JNum (now - startTime)), (''timestamp'', JStr stamp)]"

section \<open>The chain endpoint (routes/api.js, \<open>router.post("/chain")\<close>)\<close>

text \<open>A vendor call (\<open>axios.post\<close>, \<open>openai.chat.completions.create\<close>,
  \<open>geminiModel.generateContent\<close>) seen from the handler: the prompt goes in, and the
  awaited promise gives the reply's data or throws.\<close>

type_synonym provider = "json \<Rightarrow> js_exn + json"

datatype stage = Scira | DeepSeek

text \<open>\<open>res.data.output || res.data.result\<close>\<close>

definition output_of :: "json \<Rightarrow> js_exn + json" where
  "output_of d =
     (case get_prop d ''output'' of
        Inl e \<Rightarrow> Inl e
      | Inr a \<Rightarrow> if truthy a then Inr a else get_prop d ''result'')"

definition chain_success :: "json \<Rightarrow> json \<Rightarrow> int \<Rightarrow> int \<Rightarrow> jsstring \<Rightarrow> response" where
  "chain_success sciraOutput deepSeekOutput startTime now stamp =
     \<lparr> status = 200,
       body = obj [(''output'', deepSeekOutput),
                   (''chain'', obj [(''scira'', sciraOutput), (''deepseek'', deepSeekOutput)]),
                   (''metadata'', metadata startTime now stamp)] \<rparr>"

text \<open>
  The \<open>try\<close> block. The result is the list of vendor calls made, in order, each with the
  prompt it was given, and the response sent or the exception thrown. The two
  \<open>logger.info\<close> calls read \<open>sciraOutput.length\<close> and \<open>deepSeekOutput.length\<close>,
  which throws on \<open>undefined\<close> and \<open>null\<close>.
\<close>

definition chain_try ::
  "provider \<Rightarrow> provider \<Rightarrow> int \<Rightarrow> int \<Rightarrow> jsstring \<Rightarrow> jsstring
     \<Rightarrow> (stage \<times> json) list \<times> (js_exn + response)" where
  "chain_try scira deepseek startTime now stamp input =
     (case scira (JStr input) of
        Inl e \<Rightarrow> ([(Scira, JStr input)], Inl e)
      | Inr sciraData \<Rightarrow>
     (case output_of sciraData of
        Inl e \<Rightarrow> ([(Scira, JStr input)], Inl e)
      | Inr sciraOutput \<Rightarrow>
     (case js_length sciraOutput of
        Inl e \<Rightarrow> ([(Scira, JStr input)], Inl e)
      | Inr _ \<Rightarrow>
     (case deepseek sciraOutput of
        Inl e \<Rightarrow> ([(Scira, JStr input), (DeepSeek, sciraOutput)], Inl e)
      | Inr deepSeekData \<Rightarrow>
     (case output_of deepSeekData of
        Inl e \<Rightarrow> ([(Scira, JStr input), (DeepSeek, sciraOutput)], Inl e)
      | Inr deepSeekOutput \<Rightarrow>
     (case js_length deepSeekOutput of
        Inl e \<Rightarrow> ([(Scira, JStr input), (DeepSeek, sciraOutput)], Inl e)
      | Inr _ \<Rightarrow>
          ([(Scira, JStr input), (DeepSeek, sciraOutput)],
           Inr (chain_success sciraOutput deepSeekOutput startTime now stamp))))))))"

text \<open>The \<open>catch\<close> block: \<open>error.response\<close> is an object for an HTTP error reply and
  \<open>undefined\<close> otherwise.\<close>

definition chain_generic_failure :: "int \<Rightarrow> int \<Rightarrow> jsstring \<Rightarrow> response" where
  "chain_generic_failure startTime now stamp =
     \<lparr> status = 500,
       body = obj [(''error'', str ''Chaining failed. Please check logs.''),
                   (''metadata'', metadata startTime now stamp)] \<rparr>"

fun chain_catch :: "js_exn \<Rightarrow> int \<Rightarrow> int \<Rightarrow> jsstring \<Rightarrow> response" where
  "chain_catch (Rejected m (Some (st, data))) startTime now stamp =
     \<lparr> status = st,
       body = obj [(''error'', str ''API service error''),
                   (''details'', data),
                   (''metadata'', metadata startTime now stamp)] \<rparr>"
| "chain_catch error startTime now stamp = chain_generic_failure startTime now stamp"

definition chain_handler ::
  "provider \<Rightarrow> provider \<Rightarrow> int \<Rightarrow> int \<Rightarrow> jsstring \<Rightarrow> jsstring
     \<Rightarrow> (stage \<times> json) list \<times> response" where
  "chain_handler scira deepseek startTime now stamp input =
     (case chain_try scira deepseek startTime now stamp input of
        (calls, Inr r) \<Rightarrow> (calls, r)
      | (calls, Inl error) \<Rightarrow> (calls, chain_catch error startTime now stamp))"

text \<open>
  One stage as the handler runs it: the vendor call, the extraction of its output, and
  the read of the output's length. A stage fails when the call throws or when the reply
  holds no output to read.
\<close>

definition run_stage :: "provider \<Rightarrow> json \<Rightarrow> js_exn + json" where
  "run_stage p prompt =
     (case p prompt of
        Inl e \<Rightarrow> Inl e
      | Inr d \<Rightarrow>
        (case output_of d of
           Inl e \<Rightarrow> Inl e
         | Inr out \<Rightarrow> (case js_length out of Inl e \<Rightarrow> Inl e | Inr _ \<Rightarrow> Inr out)))"

definition call_count :: "stage \<Rightarrow> (stage \<times> json) list \<Rightarrow> nat" where
  "call_count st calls = length (filter (\<lambda>c. fst c = st) calls)"


definition failing_provider :: "js_exn \<Rightarrow> provider" where
  "failing_provider e prompt = Inl e"

definition const_provider :: "json \<Rightarrow> provider" where
  "const_provider out prompt = Inr (obj [(''output'', out)])"

definition echo_provider :: provider where
  "echo_provider prompt = Inr (obj [(''output'', prompt)])"

section \<open>The single-vendor endpoints (routes/api.js)\<close>

text \<open>\<open>error.message\<close> in a \<open>catch\<close> block. The text of the engine's own
  \<open>TypeError\<close> is not fixed by the language and is left open here.\<close>

definition error_message :: "js_exn \<Rightarrow> json" where
  "error_message error = JStr (message error)"

definition single_success :: "json \<Rightarrow> int \<Rightarrow> int \<Rightarrow> jsstring \<Rightarrow> response" where
  "single_success output startTime now stamp =
     \<lparr> status = 200,
       body = obj [(''output'', output), (''metadata'', metadata startTime now stamp)] \<rparr>"

definition single_failure :: "string \<Rightarrow> js_exn \<Rightarrow> int \<Rightarrow> int \<Rightarrow> jsstring \<Rightarrow> response" where
  "single_failure label error startTime now stamp =
     \<lparr> status = 500,
       body = obj [(''error'', str label),
                   (''details'', error_message error),
                   (''metadata'', metadata startTime now stamp)] \<rparr>"

text \<open>\<open>completion?.choices?.[0]?.message?.content\<close>\<close>

definition completion_content :: "json \<Rightarrow> json" where
  "completion_content completion =
     opt_prop (opt_prop (opt_index0 (opt_prop completion ''choices'')) ''message'') ''content''"

text \<open>
  \<open>router.post('/deepseek')\<close> of the router that runs without middleware: the handler
  reads \<open>input\<close> from the body, calls the vendor once, and answers. The result is the
  list of prompts sent to the vendor and the response.
\<close>

definition deepseek_handler ::
  "provider \<Rightarrow> int \<Rightarrow> int \<Rightarrow> jsstring \<Rightarrow> json \<Rightarrow> json list \<times> response" where
  "deepseek_handler openai startTime now stamp input =
     (case openai input of
        Inl error \<Rightarrow> ([input], single_failure ''DeepSeek API call failed'' error startTime now stamp)
      | Inr completion \<Rightarrow>
        (let output = js_or (completion_content completion) (str ''No response'') in
         case js_length output of
           Inl error \<Rightarrow>
             ([input], single_failure ''DeepSeek API call failed'' error startTime now stamp)
         | Inr _ \<Rightarrow> ([input], single_success output startTime now stamp)))"

text \<open>
  The same endpoint in the router that runs behind the limiter and the validator. It
  reads \<open>completion.choices\<close> without the leading \<open>?.\<close> and labels its failure
  differently.
\<close>

definition deepseek_handler_guarded ::
  "provider \<Rightarrow> int \<Rightarrow> int \<Rightarrow> jsstring \<Rightarrow> json \<Rightarrow> json list \<times> response" where
  "deepseek_handler_guarded openai startTime now stamp input =
     (case openai input of
        Inl error \<Rightarrow>
          ([input], single_failure ''DeepSeek API call via OpenRouter failed'' error startTime now stamp)
      | Inr completion \<Rightarrow>
        (case get_prop completion ''choices'' of
           Inl error \<Rightarrow>
             ([input], single_failure ''DeepSeek API call via OpenRouter failed'' error startTime now stamp)
         | Inr choices \<Rightarrow>
           (let output = js_or (opt_prop (opt_prop (opt_index0 choices) ''message'') ''content'')
                               (str ''No response'') in
            case js_length output of
              Inl error \<Rightarrow>
                ([input],
                 single_failure ''DeepSeek API call via OpenRouter failed'' error startTime now stamp)
            | Inr _ \<Rightarrow> ([input], single_success output startTime now stamp))))"

text \<open>\<open>router.post('/gemini')\<close>: the vendor call stands for
  \<open>geminiModel.generateContent(input)\<close> followed by \<open>result.response.text()\<close>.\<close>

definition gemini_handler ::
  "provider \<Rightarrow> int \<Rightarrow> int \<Rightarrow> jsstring \<Rightarrow> json \<Rightarrow> json list \<times> response" where
  "gemini_handler gemini startTime now stamp input =
     (case gemini input of
        Inl error \<Rightarrow> ([input], single_failure ''Gemini API call failed'' error startTime now stamp)
      | Inr output \<Rightarrow>
        (case js_length output of
           Inl error \<Rightarrow> ([input], single_failure ''Gemini API call failed'' error startTime now stamp)
         | Inr _ \<Rightarrow> ([input], single_success output startTime now stamp)))"

text \<open>
  \<open>router.post("/scira")\<close> and \<open>router.post("/deepseek")\<close> of the router with the
  chain endpoint: one \<open>axios.post\<close>, the output read as in the chain, and a failure
  response that holds the label only. They run behind their validators, so \<open>input\<close> is
  a string. The two handlers differ in the vendor they call and in the label.
\<close>

definition plain_failure :: "string \<Rightarrow> int \<Rightarrow> int \<Rightarrow> jsstring \<Rightarrow> response" where
  "plain_failure label startTime now stamp =
     \<lparr> status = 500,
       body = obj [(''error'', str label), (''metadata'', metadata startTime now stamp)] \<rparr>"

definition axios_handler ::
  "string \<Rightarrow> provider \<Rightarrow> int \<Rightarrow> int \<Rightarrow> jsstring \<Rightarrow> jsstring \<Rightarrow> json list \<times> response" where
  "axios_handler label vendor startTime now stamp input =
     (case vendor (JStr input) of
        Inl error \<Rightarrow> ([JStr input], plain_failure label startTime now stamp)
      | Inr d \<Rightarrow>
        (case output_of d of
           Inl error \<Rightarrow> ([JStr input], plain_failure label startTime now stamp)
         | Inr output \<Rightarrow>
           (case js_length output of
              Inl error \<Rightarrow> ([JStr input], plain_failure label startTime now stamp)
            | Inr _ \<Rightarrow> ([JStr input], single_success output startTime now stamp))))"

definition scira_handler ::
  "provider \<Rightarrow> int \<Rightarrow> int \<Rightarrow> jsstring \<Rightarrow> jsstring \<Rightarrow> json list \<times> response" where
  "scira_handler = axios_handler ''Scira API call failed''"

definition deepseek_axios_handler ::
  "provider \<Rightarrow> int \<Rightarrow> int \<Rightarrow> jsstring \<Rightarrow> jsstring \<Rightarrow> json list \<times> response" where
  "deepseek_axios_handler = axios_handler ''DeepSeek API call failed''"

section \<open>The Gemini service (services/gemini.js) and its endpoint\<close>

text \<open>
  \<open>GeminiService.generateResponse\<close>. The model call stands for
  \<open>this.model.generateContent(prompt)\<close>, \<open>result.response\<close> and \<open>response.text()\<close>:
  it gives the text and \<open>result.usageMetadata\<close>, or throws. The service reads its own
  clock (\<open>startTime\<close>, \<open>now\<close>, \<open>stamp\<close>), logs \<open>prompt.length\<close> and
  \<open>text.length\<close>, and throws every failure again as
  \<open>new Error(`Gemini API error: ${error.message}`)\<close>.
\<close>

type_synonym gemini_model = "json \<Rightarrow> js_exn + json \<times> json"

definition modelName :: string where
  "modelName = ''gemini-2.0-flash-exp''"

record service_result =
  result_output :: json
  result_metadata :: json_fields

definition gemini_rethrow :: "js_exn \<Rightarrow> js_exn" where
  "gemini_rethrow error = Rejected (js ''Gemini API error: '' @ message error) None"

text \<open>\<open>result.usageMetadata?.name || 0\<close>\<close>

definition usage_count :: "json \<Rightarrow> string \<Rightarrow> json" where
  "usage_count usageMetadata k = js_or (opt_prop usageMetadata k) (JNum 0)"

definition generateResponse ::
  "gemini_model \<Rightarrow> int \<Rightarrow> int \<Rightarrow> jsstring \<Rightarrow> json \<Rightarrow> js_exn + service_result" where
  "generateResponse model startTime now stamp prompt =
     (case js_length prompt of
        Inl error \<Rightarrow> Inl (gemini_rethrow error)
      | Inr _ \<Rightarrow>
        (case model prompt of
           Inl error \<Rightarrow> Inl (gemini_rethrow error)
         | Inr (text, usageMetadata) \<Rightarrow>
           (case js_length text of
              Inl error \<Rightarrow> Inl (gemini_rethrow error)
            | Inr _ \<Rightarrow>
                Inr \<lparr> result_output = text,
                      result_metadata =
                        [(js ''model'', str modelName),
                         (js ''processingTime'', JNum (now - startTime)),
                         (js ''timestamp'', JStr stamp),
                         (js ''usage'',
                          obj [(''promptTokens'', usage_count usageMetadata ''promptTokenCount''),
                               (''responseTokens'',
                                usage_count usageMetadata ''candidatesTokenCount''),
                               (''totalTokens'', usage_count usageMetadata ''totalTokenCount'')])]
                    \<rparr>)))"

text \<open>\<open>{...m, k: v}\<close>: a key of \<open>m\<close> keeps its place and takes the new value; a new
  key goes last.\<close>

definition set_field :: "json_fields \<Rightarrow> string \<Rightarrow> json \<Rightarrow> json_fields" where
  "set_field m k v =
     (if js k \<in> set (map fst m)
      then map (\<lambda>(k', v'). if k' = js k then (k', v) else (k', v')) m
      else m @ [(js k, v)])"

text \<open>
  \<open>router.post("/gemini")\<close> of the router with the chain endpoint. \<open>geminiService\<close>
  is missing when the constructor threw at start-up (no API key); the handler then answers
  503. The service's clock readings are \<open>svcStart\<close>, \<open>svcNow\<close> and \<open>svcStamp\<close>.
\<close>

definition gemini_service_handler ::
  "gemini_model option \<Rightarrow> int \<Rightarrow> int \<Rightarrow> jsstring \<Rightarrow> int \<Rightarrow> int \<Rightarrow> jsstring \<Rightarrow> jsstring
     \<Rightarrow> response" where
  "gemini_service_handler geminiService svcStart svcNow svcStamp startTime now stamp input =
     (case geminiService of
        None \<Rightarrow>
          \<lparr> status = 503,
            body = obj [(''error'',
                         str ''Gemini service is not available. Please check API key configuration.''),
                        (''metadata'', metadata startTime now stamp)] \<rparr>
      | Some model \<Rightarrow>
        (case generateResponse model svcStart svcNow svcStamp (JStr input) of
           Inl error \<Rightarrow> single_failure ''Gemini API call failed'' error startTime now stamp
         | Inr result \<Rightarrow>
           (case js_length (result_output result) of
              Inl error \<Rightarrow> single_failure ''Gemini API call failed'' error startTime now stamp
            | Inr _ \<Rightarrow>
                \<lparr> status = 200,
                  body = obj [(''output'', result_output result),
                              (''metadata'',
                               JObj (set_field (result_metadata result) ''processingTime''
                                       (JNum (now - startTime))))] \<rparr>)))"

section \<open>Request validation (middleware/validation.js)\<close>

text \<open>
  A string field of a schema as the source declares it:
  \<open>Joi.string().min(..).max(..).required().messages({..})\<close>. The schemas
  \<open>deepseek\<close> and \<open>gemini\<close> are embedded; \<open>userRegister\<close> and \<open>userLogin\<close>
  use \<open>pattern\<close> and \<open>email\<close> rules and are left out.
\<close>

record string_rule =
  rule_min :: nat
  rule_max :: nat
  rule_required :: bool
  rule_messages :: "(string \<times> string) list"

type_synonym object_schema = "(string \<times> string_rule) list"

definition input_rule :: string_rule where
  "input_rule =
     \<lparr> rule_min = 1,
       rule_max = 10000,
       rule_required = True,
       rule_messages =
         [(''string.empty'', ''Input cannot be empty''),
          (''string.min'', ''Input must be at least 1 character long''),
          (''string.max'', ''Input cannot exceed 10,000 characters''),
          (''any.required'', ''Input is required'')] \<rparr>"

definition schemas :: "(string \<times> object_schema) list" where
  "schemas = [(''deepseek'', [(''input'', input_rule)]), (''gemini'', [(''input'', input_rule)])]"

record detail =
  path :: "string list"
  detail_message :: jsstring

text \<open>
  Modelled from the spec: the engine behind \<open>schema.validate\<close> (the Joi library, not
  under src/). Section 4.3: a schema maps a field name to constraints (type, minimum and
  maximum length, requiredness) with one message per violated constraint; validation
  collects the violated constraints of a field in the order of the schema's declaration;
  on success the payload is returned with unknown fields stripped. A constraint whose
  message the schema does not override (a value that is not a string) reports the
  library's text.
\<close>

definition joi_detail :: "string_rule \<Rightarrow> string \<Rightarrow> string \<Rightarrow> detail" where
  "joi_detail rule key code =
     \<lparr> path = [key],
       detail_message =
         (case map_of (rule_messages rule) code of
            Some m \<Rightarrow> js m
          | None \<Rightarrow> [0x22] @ js key @ [0x22] @ js '' must be a string'') \<rparr>"

definition joi_string :: "string_rule \<Rightarrow> string \<Rightarrow> json \<Rightarrow> detail list" where
  "joi_string rule key v =
     (case v of
        JUndefined \<Rightarrow> if rule_required rule then [joi_detail rule key ''any.required''] else []
      | JStr s \<Rightarrow>
          if s = [] then [joi_detail rule key ''string.empty'']
          else (if length s < rule_min rule then [joi_detail rule key ''string.min''] else [])
             @ (if length s > rule_max rule then [joi_detail rule key ''string.max''] else [])
      | _ \<Rightarrow> [joi_detail rule key ''string.base''])"

definition known_key :: "object_schema \<Rightarrow> jsstring \<Rightarrow> bool" where
  "known_key schema k = (k \<in> set (map (\<lambda>(key, rule). js key) schema))"

definition joi_validate :: "object_schema \<Rightarrow> json_fields \<Rightarrow> detail list \<times> json_fields" where
  "joi_validate schema b =
     (concat (map (\<lambda>(key, rule). joi_string rule key (field_of b key)) schema),
      filter (\<lambda>(k, v). known_key schema k) b)"

text \<open>\<open>detail.path.join('.')\<close>\<close>

fun join_dot :: "string list \<Rightarrow> string" where
  "join_dot [] = []"
| "join_dot [x] = x"
| "join_dot (x # xs) = x @ ''.'' @ join_dot xs"

definition errorDetails :: "detail list \<Rightarrow> json" where
  "errorDetails ds =
     JArr (map (\<lambda>d. obj [(''field'', str (join_dot (path d))),
                           (''message'', JStr (detail_message d))]) ds)"

text \<open>What a middleware does with a request: it answers, or it calls \<open>next()\<close> with the
  body it leaves in \<open>req.body\<close>.\<close>

datatype middleware_result = Next json_fields | Respond response

text \<open>The middleware factory \<open>validate\<close> of the source. Its logging is left out.\<close>

definition validate :: "string \<Rightarrow> json_fields \<Rightarrow> middleware_result" where
  "validate schemaName b =
     (case map_of schemas schemaName of
        None \<Rightarrow> Respond \<lparr> status = 500, body = obj [(''error'', str ''Validation configuration error'')] \<rparr>
      | Some schema \<Rightarrow>
        (case joi_validate schema b of
           (error, val) \<Rightarrow>
             if error \<noteq> []
             then Respond \<lparr> status = 400,
                            body = obj [(''error'', str ''Validation failed''),
                                        (''details'', errorDetails error)] \<rparr>
             else Next val))"

text \<open>The 400 response that reports one violated constraint of one field.\<close>

definition field_rejection :: "string \<Rightarrow> string \<Rightarrow> response" where
  "field_rejection field text =
     \<lparr> status = 400,
       body = obj [(''error'', str ''Validation failed''),
                   (''details'', JArr [obj [(''field'', str field), (''message'', str text)]])] \<rparr>"

text \<open>An input of 10001 code units, one over the limit.\<close>

definition long_input :: jsstring where
  "long_input = replicate 10001 0x61"

definition validateDeepSeek :: "json_fields \<Rightarrow> middleware_result" where
  "validateDeepSeek = validate ''deepseek''"

definition validateGemini :: "json_fields \<Rightarrow> middleware_result" where
  "validateGemini = validate ''gemini''"

section \<open>The guarded routes\<close>

text \<open>
  \<open>router.post('/deepseek', ai, validateDeepSeek, handler)\<close> and
  \<open>router.post('/gemini', ai, validateGemini, handler)\<close>: the limiter first, with its
  decision for this request given as \<open>admitted\<close>, then the validator, then the handler
  on the body the validator left. The handler logs \<open>input.length\<close> before its
  \<open>try\<close>; on \<open>undefined\<close> that throws out of the handler and no response is sent.
\<close>

text \<open>What a limiter answers to a request it rejects: what its \<open>handler\<close> sends;
  without a handler, the library sends \<open>message\<close> with status 429.\<close>

definition limiter_rejection :: "limiter \<Rightarrow> response" where
  "limiter_rejection l =
     (case handler l of Some r \<Rightarrow> r | None \<Rightarrow> \<lparr> status = 429, body = limit_message l \<rparr>)"

definition guarded_route ::
  "(provider \<Rightarrow> int \<Rightarrow> int \<Rightarrow> jsstring \<Rightarrow> json \<Rightarrow> json list \<times> response)
     \<Rightarrow> (json_fields \<Rightarrow> middleware_result)
     \<Rightarrow> jsstring option \<Rightarrow> bool \<Rightarrow> provider \<Rightarrow> int \<Rightarrow> int \<Rightarrow> jsstring \<Rightarrow> json_fields
     \<Rightarrow> json list \<times> response option" where
  "guarded_route h validator NODE_ENV admitted vendor startTime now stamp b =
     (if \<not> admitted then ([], Some (limiter_rejection (ai (getRateLimiters NODE_ENV))))
      else
        (case validator b of
           Respond r \<Rightarrow> ([], Some r)
         | Next val \<Rightarrow>
           (case js_length (field_of val ''input'') of
              Inl error \<Rightarrow> ([], None)
            | Inr _ \<Rightarrow>
              (case h vendor startTime now stamp (field_of val ''input'') of
                 (calls, r) \<Rightarrow> (calls, Some r)))))"

definition deepseek_route ::
  "jsstring option \<Rightarrow> bool \<Rightarrow> provider \<Rightarrow> int \<Rightarrow> int \<Rightarrow> jsstring \<Rightarrow> json_fields
     \<Rightarrow> json list \<times> response option" where
  "deepseek_route = guarded_route deepseek_handler_guarded validateDeepSeek"

definition gemini_route ::
  "jsstring option \<Rightarrow> bool \<Rightarrow> provider \<Rightarrow> int \<Rightarrow> int \<Rightarrow> jsstring \<Rightarrow> json_fields
     \<Rightarrow> json list \<times> response option" where
  "gemini_route = guarded_route gemini_handler validateGemini"

section \<open>Rate limiter admission\<close>

text \<open>
  Modelled from the spec: the store and the admission check behind \<open>rateLimit(options)\<close>
  (the express-rate-limit library, not under src/). Section 4.4: per client key, a fixed
  window of length \<open>windowMs\<close>; a counter starts at 0 when the window opens; each
  admitted call increments it; a call that would take it over \<open>max\<close> is rejected
  without incrementing; when the window has elapsed, counter and window reset on the next
  call. Section 3: the state maps a client key to its window and count, created on the
  first request. Time is in milliseconds. The options (\<open>windowMs\<close>, \<open>max\<close>) are
  those of the source.
\<close>

record window =
  window_start :: nat
  hits :: nat

type_synonym limiter_state = "jsstring \<Rightarrow> window option"

definition current_window :: "limiter \<Rightarrow> nat \<Rightarrow> window option \<Rightarrow> window" where
  "current_window l now w =
     (case w of
        None \<Rightarrow> \<lparr> window_start = now, hits = 0 \<rparr>
      | Some w \<Rightarrow>
          if now \<ge> window_start w + windowMs l then \<lparr> window_start = now, hits = 0 \<rparr> else w)"

definition admit :: "limiter \<Rightarrow> nat \<Rightarrow> jsstring \<Rightarrow> limiter_state \<Rightarrow> bool \<times> limiter_state" where
  "admit l now clientKey s =
     (let w = current_window l now (s clientKey) in
      if hits w + 1 > max_limit l then (False, s(clientKey \<mapsto> w))
      else (True, s(clientKey \<mapsto> w\<lparr> hits := hits w + 1 \<rparr>)))"

text \<open>A run of calls from one client key at the given times.\<close>

fun admit_all ::
  "limiter \<Rightarrow> jsstring \<Rightarrow> nat list \<Rightarrow> limiter_state \<Rightarrow> bool list \<times> limiter_state" where
  "admit_all l clientKey [] s = ([], s)"
| "admit_all l clientKey (t # ts) s =
     (case admit l t clientKey s of
        (a, s') \<Rightarrow> (case admit_all l clientKey ts s' of (as, s'') \<Rightarrow> (a # as, s'')))"

text \<open>The tiers and the limiter the source configures for each (outside development
  mode).\<close>

datatype tier = AuthTier | ChainTier | AiTier | GeneralTier

fun tier_limiter :: "jsstring \<Rightarrow> tier \<Rightarrow> limiter" where
  "tier_limiter loaded_iso AuthTier = authLimiter loaded_iso"
| "tier_limiter loaded_iso ChainTier = chainLimiter"
| "tier_limiter loaded_iso AiTier = aiLimiter"
| "tier_limiter loaded_iso GeneralTier = generalLimiter"

fun tier_max :: "tier \<Rightarrow> nat" where
  "tier_max AuthTier = 5"
| "tier_max ChainTier = 10"
| "tier_max AiTier = 30"
| "tier_max GeneralTier = 100"

section \<open>The envelope\<close>

text \<open>A body carries the envelope when its \<open>metadata\<close> is an object holding a number
  \<open>processingTime\<close> and a string \<open>timestamp\<close>.\<close>

definition has_envelope :: "json \<Rightarrow> bool" where
  "has_envelope b =
     (case opt_prop b ''metadata'' of
        JObj m \<Rightarrow>
          (case (map_of m (js ''processingTime''), map_of m (js ''timestamp'')) of
             (Some (JNum t), Some (JStr ts)) \<Rightarrow> True
           | _ \<Rightarrow> False)
      | _ \<Rightarrow> False)"

section \<open>Password strength: properties\<close>

lemma regex_test_iff: "regex_test cls p = (\<exists>i < length p. cls (p ! i))"
proof (induction p)
  case Nil
  show ?case by simp
next
  case (Cons c cs)
  show ?case
  proof (cases "cls c")
    case True
    then have "cls ((c # cs) ! 0)" by simp
    then have "\<exists>i < length (c # cs). cls ((c # cs) ! i)" by blast
    with True show ?thesis by simp
  next
    case False
    have "(\<exists>i < length (c # cs). cls ((c # cs) ! i)) = (\<exists>i < length cs. cls (cs ! i))"
    proof
      assume "\<exists>i < length (c # cs). cls ((c # cs) ! i)"
      then obtain i where i: "i < length (c # cs)" "cls ((c # cs) ! i)" by blast
      with False obtain j where "i = Suc j" by (cases i) auto
      with i show "\<exists>i < length cs. cls (cs ! i)" by auto
    next
      assume "\<exists>i < length cs. cls (cs ! i)"
      then obtain i where "i < length cs" "cls (cs ! i)" by blast
      then have "Suc i < length (c # cs) \<and> cls ((c # cs) ! Suc i)" by simp
      then show "\<exists>i < length (c # cs). cls ((c # cs) ! i)" by blast
    qed
    with False Cons show ?thesis by simp
  qed
qed

lemma checks_rules:
  "length_chk (password_checks p) = rule_length p"
  "lowercase (password_checks p) = rule_lowercase p"
  "uppercase (password_checks p) = rule_uppercase p"
  "number (password_checks p) = rule_digit p"
  "special (password_checks p) = rule_special p"
  by (simp_all add: password_checks_def rule_length_def rule_lowercase_def rule_uppercase_def
      rule_digit_def rule_special_def regex_test_iff lower_class_def upper_class_def
      digit_class_def special_class_def)

lemma isValid_rules:
  "isValid (validatePasswordStrength p) =
     (rule_length p \<and> rule_lowercase p \<and> rule_uppercase p \<and> rule_digit p \<and> rule_special p)"
  by (simp add: validatePasswordStrength_def Let_def object_values_def checks_rules)

lemma strength_rules: "strength (validatePasswordStrength p) = satisfied_rules p"
  by (simp add: validatePasswordStrength_def Let_def object_values_def checks_rules
      satisfied_rules_def)

lemma satisfied_rules_le: "satisfied_rules p \<le> 5"
  by (simp add: satisfied_rules_def of_bool_def)

lemma strength_abc:
  "validatePasswordStrength (js ''abc'') =
     \<lparr> isValid = False,
       errors = [msg_length, msg_uppercase, msg_number, msg_special],
       strength = 1 \<rparr>"
  by (simp add: validatePasswordStrength_def Let_def object_values_def password_checks_def
      js_def lower_class_def upper_class_def digit_class_def special_class_def special_chars_def)

lemma strength_Abcdef1:
  "validatePasswordStrength (js ''Abcdef1!'') = \<lparr> isValid = True, errors = [], strength = 5 \<rparr>"
  by (simp add: validatePasswordStrength_def Let_def object_values_def password_checks_def
      js_def lower_class_def upper_class_def digit_class_def special_class_def special_chars_def)

text \<open>
  C8. For every string \<open>p\<close>, \<open>validatePasswordStrength p\<close> (a function of \<open>p\<close> alone)
  has \<open>isValid\<close> true exactly when all five rules hold: length 6 to 128, a lowercase
  letter, an uppercase letter, a digit, a special character. Its \<open>strength\<close> is the number
  of rules that hold, between 0 and 5. \<open>"abc"\<close> is invalid, with the messages for length,
  uppercase, number and special character, in that order; \<open>"Abcdef1!"\<close> is valid with
  strength 5.
\<close>

theorem validatePasswordStrength_rules:
  "isValid (validatePasswordStrength p)
     = (rule_length p \<and> rule_lowercase p \<and> rule_uppercase p \<and> rule_digit p \<and> rule_special p)
   \<and> strength (validatePasswordStrength p) = satisfied_rules p
   \<and> strength (validatePasswordStrength p) \<le> 5
   \<and> validatePasswordStrength (js ''abc'')
       = \<lparr> isValid = False,
           errors = [msg_length, msg_uppercase, msg_number, msg_special],
           strength = 1 \<rparr>
   \<and> validatePasswordStrength (js ''Abcdef1!'') = \<lparr> isValid = True, errors = [], strength = 5 \<rparr>"
  using isValid_rules [of p] strength_rules [of p] satisfied_rules_le [of p]
    strength_abc strength_Abcdef1
  by simp

theorem validatePasswordStrength_rules_witness:
  "isValid (validatePasswordStrength (js ''Abcdef1!''))
   \<and> satisfied_rules (js ''Abcdef1!'') = 5
   \<and> \<not> isValid (validatePasswordStrength (js ''abc''))
   \<and> satisfied_rules (js ''abc'') = 1"
proof -
  note good = validatePasswordStrength_rules [of "js ''Abcdef1!''"]
  note bad = validatePasswordStrength_rules [of "js ''abc''"]
  have g: "validatePasswordStrength (js ''Abcdef1!'')
             = \<lparr> isValid = True, errors = [], strength = 5 \<rparr>"
    using good by blast
  have gs: "strength (validatePasswordStrength (js ''Abcdef1!'')) = satisfied_rules (js ''Abcdef1!'')"
    using good by blast
  have b: "validatePasswordStrength (js ''abc'')
             = \<lparr> isValid = False,
                 errors = [msg_length, msg_uppercase, msg_number, msg_special],
                 strength = 1 \<rparr>"
    using bad by blast
  have bs: "strength (validatePasswordStrength (js ''abc'')) = satisfied_rules (js ''abc'')"
    using bad by blast
  have "satisfied_rules (js ''Abcdef1!'') = 5" using g gs by simp
  moreover have "satisfied_rules (js ''abc'') = 1" using b bs by simp
  ultimately show ?thesis using g b by simp
qed

section \<open>Development-mode limiters: properties\<close>

text \<open>
  C10. When \<open>NODE_ENV\<close> is \<open>'development'\<close>, \<open>getRateLimiters\<close> gives the one
  development limiter (at most 1000 requests per window of 15 minutes) for \<open>general\<close>,
  \<open>ai\<close> and \<open>chain\<close>, so the maxima 100, 30 and 10 are not the ones in force.
\<close>

theorem getRateLimiters_development:
  assumes "NODE_ENV = Some (js ''development'')"
  shows "getRateLimiters NODE_ENV = \<lparr> general = devLimiter, ai = devLimiter, chain = devLimiter \<rparr>
         \<and> max_limit devLimiter = 1000
         \<and> windowMs devLimiter = 15 * 60 * 1000
         \<and> max_limit (general (getRateLimiters NODE_ENV)) \<noteq> 100
         \<and> max_limit (ai (getRateLimiters NODE_ENV)) \<noteq> 30
         \<and> max_limit (chain (getRateLimiters NODE_ENV)) \<noteq> 10"
  using assms by (simp add: getRateLimiters_def devLimiter_def make_limiter_def)

theorem getRateLimiters_development_witness:
  "max_limit (general (getRateLimiters (Some (js ''development'')))) = 1000
   \<and> max_limit (ai (getRateLimiters (Some (js ''development'')))) = 1000
   \<and> max_limit (chain (getRateLimiters (Some (js ''development'')))) = 1000"
  using getRateLimiters_development [of "Some (js ''development'')"]
  by simp

section \<open>The chain endpoint: properties\<close>

lemma chain_try_stage1_fails:
  "run_stage scira (JStr input) = Inl e \<Longrightarrow>
   chain_try scira deepseek startTime now stamp input = ([(Scira, JStr input)], Inl e)"
  by (auto simp: run_stage_def chain_try_def split: sum.splits)

lemma chain_try_stage2_fails:
  "run_stage scira (JStr input) = Inr out1 \<Longrightarrow> run_stage deepseek out1 = Inl e \<Longrightarrow>
   chain_try scira deepseek startTime now stamp input
     = ([(Scira, JStr input), (DeepSeek, out1)], Inl e)"
  by (auto simp: run_stage_def chain_try_def split: sum.splits)

lemma chain_try_success:
  "run_stage scira (JStr input) = Inr out1 \<Longrightarrow> run_stage deepseek out1 = Inr out2 \<Longrightarrow>
   chain_try scira deepseek startTime now stamp input
     = ([(Scira, JStr input), (DeepSeek, out1)],
        Inr (chain_success out1 out2 startTime now stamp))"
  by (auto simp: run_stage_def chain_try_def split: sum.splits)

lemma run_stage_failing: "run_stage (failing_provider e) prompt = Inl e"
  by (simp add: run_stage_def failing_provider_def)

lemma run_stage_const_str: "run_stage (const_provider (str (c # cs))) prompt = Inr (str (c # cs))"
  by (simp add: run_stage_def const_provider_def output_of_def obj_def str_def js_def)

lemma run_stage_echo_str: "run_stage echo_provider (str (c # cs)) = Inr (str (c # cs))"
  by (simp add: run_stage_def echo_provider_def output_of_def obj_def str_def js_def)

text \<open>
  C1 (as amended). When the first stage (Scira) fails, by a throwing call or by a reply
  with no output to read, the only vendor call made is the one to Scira: DeepSeek is
  called 0 times. The response is the one the \<open>catch\<close> block builds from the exception
  alone: the vendor's status and data under the label \<open>API service error\<close>, or the fixed
  500 response. It does not name the stage.
\<close>

theorem chain_fail_fast:
  assumes "run_stage scira (JStr input) = Inl e"
  shows "chain_handler scira deepseek startTime now stamp input
           = ([(Scira, JStr input)], chain_catch e startTime now stamp)
         \<and> call_count DeepSeek (fst (chain_handler scira deepseek startTime now stamp input)) = 0"
  using chain_try_stage1_fails [OF assms]
  by (simp add: chain_handler_def call_count_def)

theorem chain_fail_fast_witness:
  "chain_handler (failing_provider (Rejected (js ''timeout'') None)) echo_provider
       100 130 (js ''2024-01-01T00:00:00.000Z'') (js ''x'')
     = ([(Scira, str ''x'')], chain_generic_failure 100 130 (js ''2024-01-01T00:00:00.000Z''))"
  using chain_fail_fast [of "failing_provider (Rejected (js ''timeout'') None)" "js ''x''"
      "Rejected (js ''timeout'') None" echo_provider 100 130 "js ''2024-01-01T00:00:00.000Z''"]
  by (simp add: run_stage_failing str_def)

text \<open>
  Against C1 as the specification states it: the error the handler emits does not identify the failing
  stage. A run in which Scira times out and a run in which Scira answers and DeepSeek
  times out end in the same response.
\<close>

theorem chain_error_names_no_stage:
  "run_stage (failing_provider (Rejected (js ''timeout'') None)) (str ''x'')
     = Inl (Rejected (js ''timeout'') None)
   \<and> run_stage (const_provider (str ''X'')) (str ''x'') = Inr (str ''X'')
   \<and> run_stage (failing_provider (Rejected (js ''timeout'') None)) (str ''X'')
       = Inl (Rejected (js ''timeout'') None)
   \<and> snd (chain_handler (failing_provider (Rejected (js ''timeout'') None)) echo_provider
             100 130 (js ''2024-01-01T00:00:00.000Z'') (js ''x''))
     = snd (chain_handler (const_provider (str ''X''))
             (failing_provider (Rejected (js ''timeout'') None))
             100 130 (js ''2024-01-01T00:00:00.000Z'') (js ''x''))"
  by (simp add: chain_handler_def chain_try_def failing_provider_def const_provider_def
      run_stage_def output_of_def obj_def str_def js_def)

text \<open>
  C2 (as amended). When a stage of the chain fails with a vendor HTTP error (the call
  throws with \<open>error.response\<close> set), the response carries the vendor's status code as
  its status and the vendor's reply data, unchanged, as \<open>details\<close>; its \<open>error\<close> is
  the fixed label \<open>API service error\<close>, whatever the message of the thrown error; it
  is not the fixed 500 response of the other failures.
\<close>

theorem chain_error_propagation:
  assumes "run_stage scira (JStr input) = Inl (Rejected m (Some (st, d)))
           \<or> (run_stage scira (JStr input) = Inr out1
               \<and> run_stage deepseek out1 = Inl (Rejected m (Some (st, d))))"
  shows "snd (chain_handler scira deepseek startTime now stamp input)
           = \<lparr> status = st,
               body = obj [(''error'', str ''API service error''),
                           (''details'', d),
                           (''metadata'', metadata startTime now stamp)] \<rparr>
         \<and> opt_prop (body (snd (chain_handler scira deepseek startTime now stamp input))) ''details''
             = d
         \<and> opt_prop (body (snd (chain_handler scira deepseek startTime now stamp input))) ''error''
             = str ''API service error''
         \<and> snd (chain_handler scira deepseek startTime now stamp input)
             \<noteq> chain_generic_failure startTime now stamp"
proof -
  have r: "snd (chain_handler scira deepseek startTime now stamp input)
             = chain_catch (Rejected m (Some (st, d))) startTime now stamp"
    using assms
  proof
    assume "run_stage scira (JStr input) = Inl (Rejected m (Some (st, d)))"
    then show ?thesis
      using chain_try_stage1_fails [of scira input "Rejected m (Some (st, d))"]
      by (simp add: chain_handler_def)
  next
    assume "run_stage scira (JStr input) = Inr out1
            \<and> run_stage deepseek out1 = Inl (Rejected m (Some (st, d)))"
    then show ?thesis
      using chain_try_stage2_fails [of scira input out1 deepseek "Rejected m (Some (st, d))"]
      by (simp add: chain_handler_def)
  qed
  have d: "opt_prop (body (chain_catch (Rejected m (Some (st, d))) startTime now stamp)) ''details'' = d"
    by (simp add: obj_def js_def)
  have l: "opt_prop (body (chain_catch (Rejected m (Some (st, d))) startTime now stamp)) ''error''
             = str ''API service error''"
    by (simp add: obj_def js_def)
  have g: "chain_catch (Rejected m (Some (st, d))) startTime now stamp
             \<noteq> chain_generic_failure startTime now stamp"
    by (simp add: chain_generic_failure_def obj_def)
  show ?thesis using r d l g by simp
qed

theorem chain_error_propagation_witness:
  "snd (chain_handler (failing_provider (Rejected (js ''Request failed with status code 429'')
                          (Some (429, obj [(''error'', str ''quota exceeded'')]))))
         echo_provider 100 130 (js ''2024-01-01T00:00:00.000Z'') (js ''x''))
     = \<lparr> status = 429,
         body = obj [(''error'', str ''API service error''),
                     (''details'', obj [(''error'', str ''quota exceeded'')]),
                     (''metadata'', metadata 100 130 (js ''2024-01-01T00:00:00.000Z''))] \<rparr>
   \<and> status (snd (chain_handler (const_provider (str ''X''))
         (failing_provider (Rejected (js ''Request failed with status code 503'')
                          (Some (503, str ''unavailable''))))
         100 130 (js ''2024-01-01T00:00:00.000Z'') (js ''x''))) = 503"
  using chain_error_propagation [of "failing_provider (Rejected (js ''Request failed with status code 429'')
                          (Some (429, obj [(''error'', str ''quota exceeded'')])))" "js ''x''"
        "js ''Request failed with status code 429''" 429 "obj [(''error'', str ''quota exceeded'')]"
        "JNull" echo_provider 100 130 "js ''2024-01-01T00:00:00.000Z''"]
    chain_error_propagation [of "const_provider (str ''X'')" "js ''x''"
        "js ''Request failed with status code 503''" 503 "str ''unavailable''"
        "str ''X''" "failing_provider (Rejected (js ''Request failed with status code 503'')
                          (Some (503, str ''unavailable'')))" 100 130 "js ''2024-01-01T00:00:00.000Z''"]
  by (simp add: run_stage_failing run_stage_const_str)

text \<open>
  Against C2 as the specification states it: the response does not carry the failing
  stage's error message. Two failures of Scira with the same status and reply data and
  different messages end in the same response, and its \<open>error\<close> is the fixed label.
\<close>

theorem chain_error_message_dropped:
  "run_stage (failing_provider (Rejected (js ''Request failed with status code 429'')
                                  (Some (429, str ''slow down'')))) (str ''x'')
     = Inl (Rejected (js ''Request failed with status code 429'') (Some (429, str ''slow down'')))
   \<and> run_stage (failing_provider (Rejected (js ''quota exceeded'')
                                  (Some (429, str ''slow down'')))) (str ''x'')
     = Inl (Rejected (js ''quota exceeded'') (Some (429, str ''slow down'')))
   \<and> js ''Request failed with status code 429'' \<noteq> js ''quota exceeded''
   \<and> snd (chain_handler (failing_provider (Rejected (js ''Request failed with status code 429'')
                                              (Some (429, str ''slow down''))))
             echo_provider 100 130 (js ''2024-01-01T00:00:00.000Z'') (js ''x''))
     = snd (chain_handler (failing_provider (Rejected (js ''quota exceeded'')
                                              (Some (429, str ''slow down''))))
             echo_provider 100 130 (js ''2024-01-01T00:00:00.000Z'') (js ''x''))
   \<and> opt_prop (body (snd (chain_handler
                (failing_provider (Rejected (js ''Request failed with status code 429'')
                                     (Some (429, str ''slow down''))))
                echo_provider 100 130 (js ''2024-01-01T00:00:00.000Z'') (js ''x'')))) ''error''
     = str ''API service error''"
  by (simp add: chain_handler_def chain_try_def failing_provider_def run_stage_def obj_def
      str_def js_def)

text \<open>
  C3. When both stages succeed, DeepSeek is called with Scira's output, so the final
  output is stage 2 applied to the output of stage 1 on the input; the handler answers
  200 with \<open>{output, chain: {scira, deepseek}, metadata}\<close>, where \<open>output\<close> and
  \<open>chain.deepseek\<close> are both the output of DeepSeek and \<open>chain.scira\<close> is the output
  of Scira.
\<close>

theorem chain_success_composition:
  assumes "run_stage scira (JStr input) = Inr out1" and "run_stage deepseek out1 = Inr out2"
  shows "chain_handler scira deepseek startTime now stamp input
           = ([(Scira, JStr input), (DeepSeek, out1)],
              \<lparr> status = 200,
                body = obj [(''output'', out2),
                            (''chain'', obj [(''scira'', out1), (''deepseek'', out2)]),
                            (''metadata'', metadata startTime now stamp)] \<rparr>)"
  using chain_try_success [OF assms]
  by (simp add: chain_handler_def chain_success_def)

theorem chain_success_composition_witness:
  "snd (chain_handler (const_provider (str ''X'')) (const_provider (str ''Y''))
          100 130 (js ''2024-01-01T00:00:00.000Z'') (js ''hello''))
     = \<lparr> status = 200,
         body = obj [(''output'', str ''Y''),
                     (''chain'', obj [(''scira'', str ''X''), (''deepseek'', str ''Y'')]),
                     (''metadata'', metadata 100 130 (js ''2024-01-01T00:00:00.000Z''))] \<rparr>
   \<and> opt_prop (body (snd (chain_handler (const_provider (str ''A-out'')) echo_provider
          100 130 (js ''2024-01-01T00:00:00.000Z'') (js ''x'')))) ''output'' = str ''A-out''"
proof -
  have a: "snd (chain_handler (const_provider (str ''X'')) (const_provider (str ''Y''))
          100 130 (js ''2024-01-01T00:00:00.000Z'') (js ''hello''))
     = \<lparr> status = 200,
         body = obj [(''output'', str ''Y''),
                     (''chain'', obj [(''scira'', str ''X''), (''deepseek'', str ''Y'')]),
                     (''metadata'', metadata 100 130 (js ''2024-01-01T00:00:00.000Z''))] \<rparr>"
    using chain_success_composition [of "const_provider (str ''X'')" "js ''hello''" "str ''X''"
        "const_provider (str ''Y'')" "str ''Y''" 100 130 "js ''2024-01-01T00:00:00.000Z''"]
    by (simp add: run_stage_const_str)
  have b: "snd (chain_handler (const_provider (str ''A-out'')) echo_provider
          100 130 (js ''2024-01-01T00:00:00.000Z'') (js ''x''))
     = \<lparr> status = 200,
         body = obj [(''output'', str ''A-out''),
                     (''chain'', obj [(''scira'', str ''A-out''), (''deepseek'', str ''A-out'')]),
                     (''metadata'', metadata 100 130 (js ''2024-01-01T00:00:00.000Z''))] \<rparr>"
    using chain_success_composition [of "const_provider (str ''A-out'')" "js ''x''" "str ''A-out''"
        echo_provider "str ''A-out''" 100 130 "js ''2024-01-01T00:00:00.000Z''"]
    by (simp add: run_stage_const_str run_stage_echo_str)
  have c: "opt_prop (obj [(''output'', str ''A-out''),
                     (''chain'', obj [(''scira'', str ''A-out''), (''deepseek'', str ''A-out'')]),
                     (''metadata'', metadata 100 130 (js ''2024-01-01T00:00:00.000Z''))]) ''output''
             = str ''A-out''"
    by (simp add: obj_def)
  show ?thesis using a b c by simp
qed

section \<open>The DeepSeek endpoint: properties\<close>












section \<open>Request validation: properties\<close>

lemma schemas_lookup:
  "schemaName = ''deepseek'' \<or> schemaName = ''gemini'' \<Longrightarrow>
   map_of schemas schemaName = Some [(''input'', input_rule)]"
  by (auto simp: schemas_def)

lemma validate_input:
  assumes "schemaName = ''deepseek'' \<or> schemaName = ''gemini''"
  shows "validate schemaName b =
     (case joi_string input_rule ''input'' (field_of b ''input'') of
        [] \<Rightarrow> Next (filter (\<lambda>(k, v). k = js ''input'') b)
      | d # ds \<Rightarrow> Respond \<lparr> status = 400,
                            body = obj [(''error'', str ''Validation failed''),
                                        (''details'', errorDetails (d # ds))] \<rparr>)"
  using schemas_lookup [OF assms]
  by (simp add: validate_def joi_validate_def known_key_def split: list.splits)

lemma joi_accept:
  "1 \<le> length s \<Longrightarrow> length s \<le> 10000 \<Longrightarrow> joi_string input_rule ''input'' (JStr s) = []"
  by (auto simp: joi_string_def input_rule_def)

lemma joi_absent:
  "joi_string input_rule ''input'' JUndefined = [joi_detail input_rule ''input'' ''any.required'']"
  by (simp add: joi_string_def input_rule_def)

lemma joi_empty:
  "joi_string input_rule ''input'' (JStr []) = [joi_detail input_rule ''input'' ''string.empty'']"
  by (simp add: joi_string_def input_rule_def)

lemma joi_long:
  "10000 < length s \<Longrightarrow>
   joi_string input_rule ''input'' (JStr s) = [joi_detail input_rule ''input'' ''string.max'']"
  by (auto simp: joi_string_def input_rule_def)

lemma details_one:
  "map_of (rule_messages input_rule) code = Some text \<Longrightarrow>
   \<lparr> status = 400,
     body = obj [(''error'', str ''Validation failed''),
                 (''details'', errorDetails [joi_detail input_rule ''input'' code])] \<rparr>
   = field_rejection ''input'' text"
  by (simp add: errorDetails_def joi_detail_def field_rejection_def str_def)

lemma messages_input:
  "map_of (rule_messages input_rule) ''any.required'' = Some ''Input is required''"
  "map_of (rule_messages input_rule) ''string.empty'' = Some ''Input cannot be empty''"
  "map_of (rule_messages input_rule) ''string.max'' = Some ''Input cannot exceed 10,000 characters''"
  by (simp_all add: input_rule_def)

lemma field_of_absent: "map_of b (js ''input'') = None \<Longrightarrow> field_of b ''input'' = JUndefined"
  by (simp add: field_of_def)

lemma field_of_filter:
  "field_of (filter (\<lambda>(k, v). k = js ''input'') b) ''input'' = field_of b ''input''"
  by (induction b) (auto simp: field_of_def)

lemma validate_accepts:
  assumes "schemaName = ''deepseek'' \<or> schemaName = ''gemini''"
    and "field_of b ''input'' = JStr s" and "1 \<le> length s" and "length s \<le> 10000"
  shows "validate schemaName b = Next (filter (\<lambda>(k, v). k = js ''input'') b)"
  using validate_input [OF assms(1), of b] joi_accept [OF assms(3,4)] assms(2) by simp

lemma validate_absent:
  assumes "schemaName = ''deepseek'' \<or> schemaName = ''gemini''"
    and "map_of b (js ''input'') = None"
  shows "validate schemaName b = Respond (field_rejection ''input'' ''Input is required'')"
  using validate_input [OF assms(1), of b] field_of_absent [OF assms(2)] joi_absent
    details_one [OF messages_input(1)] by simp

lemma validate_empty:
  assumes "schemaName = ''deepseek'' \<or> schemaName = ''gemini''"
    and "field_of b ''input'' = JStr []"
  shows "validate schemaName b = Respond (field_rejection ''input'' ''Input cannot be empty'')"
  using validate_input [OF assms(1), of b] assms(2) joi_empty
    details_one [OF messages_input(2)] by simp

lemma validate_long:
  assumes "schemaName = ''deepseek'' \<or> schemaName = ''gemini''"
    and "field_of b ''input'' = JStr s" and "10000 < length s"
  shows "validate schemaName b
           = Respond (field_rejection ''input'' ''Input cannot exceed 10,000 characters'')"
  using validate_input [OF assms(1), of b] assms(2) joi_long [OF assms(3)]
    details_one [OF messages_input(3)] by simp

lemma route_rejected:
  "validator b = Respond r \<Longrightarrow>
   fst (guarded_route h validator env admitted vendor t0 t1 stamp b) = []"
  by (simp add: guarded_route_def)

lemma route_accepted:
  assumes "validator b = Next v" and "field_of v ''input'' = JStr s"
    and "\<And>input. fst (h vendor t0 t1 stamp input) = [input]"
  shows "fst (guarded_route h validator env True vendor t0 t1 stamp b) = [JStr s]"
  using assms(1,2) assms(3) [of "JStr s"]
  by (auto simp: guarded_route_def split: prod.splits)

lemma deepseek_handler_guarded_calls:
  "fst (deepseek_handler_guarded openai t0 t1 stamp input) = [input]"
  by (simp add: deepseek_handler_guarded_def Let_def split: sum.splits)

lemma gemini_handler_calls: "fst (gemini_handler gemini t0 t1 stamp input) = [input]"
  by (simp add: gemini_handler_def split: sum.splits)

lemma validate_Next_cases:
  assumes "validate schemaName b = Next v"
  shows "(schemaName = ''deepseek'' \<or> schemaName = ''gemini'')
         \<and> v = filter (\<lambda>(k, v). k = js ''input'') b
         \<and> joi_string input_rule ''input'' (field_of b ''input'') = []"
proof -
  have n: "schemaName = ''deepseek'' \<or> schemaName = ''gemini''"
    using assms by (auto simp: validate_def schemas_def split: if_splits)
  show ?thesis using n validate_input [OF n, of b] assms by (auto split: list.splits)
qed

text \<open>
  C5. Under the schemas \<open>deepseek\<close> and \<open>gemini\<close>: a body whose \<open>input\<close> is a string
  of 1 to 10000 characters is accepted, the validator calls \<open>next()\<close> with the body cut
  down to \<open>input\<close>, and the route's handler calls the vendor with that string. A body
  whose \<open>input\<close> is absent, empty or longer than 10000 characters is answered with 400,
  \<open>Validation failed\<close>, and one field error whose \<open>field\<close> is \<open>input\<close>; the route
  then makes no vendor call.
\<close>

theorem validate_input_bounds:
  assumes "schemaName = ''deepseek'' \<or> schemaName = ''gemini''"
  shows "(field_of b ''input'' = JStr s \<and> 1 \<le> length s \<and> length s \<le> 10000 \<longrightarrow>
            validate schemaName b = Next (filter (\<lambda>(k, v). k = js ''input'') b)
            \<and> fst (deepseek_route NODE_ENV True vendor startTime now stamp b) = [JStr s]
            \<and> fst (gemini_route NODE_ENV True vendor startTime now stamp b) = [JStr s])
       \<and> (map_of b (js ''input'') = None \<longrightarrow>
            validate schemaName b = Respond (field_rejection ''input'' ''Input is required''))
       \<and> (field_of b ''input'' = JStr [] \<longrightarrow>
            validate schemaName b = Respond (field_rejection ''input'' ''Input cannot be empty''))
       \<and> (field_of b ''input'' = JStr s \<and> 10000 < length s \<longrightarrow>
            validate schemaName b
              = Respond (field_rejection ''input'' ''Input cannot exceed 10,000 characters''))
       \<and> (map_of b (js ''input'') = None \<or> field_of b ''input'' = JStr []
            \<or> (field_of b ''input'' = JStr s \<and> 10000 < length s) \<longrightarrow>
            fst (deepseek_route NODE_ENV admitted vendor startTime now stamp b) = []
            \<and> fst (gemini_route NODE_ENV admitted vendor startTime now stamp b) = [])"
proof -
  have ds: "''deepseek'' = ''deepseek'' \<or> ''deepseek'' = ''gemini''" by simp
  have gm: "''gemini'' = ''deepseek'' \<or> ''gemini'' = ''gemini''" by simp
  have accept: "validate schemaName b = Next (filter (\<lambda>(k, v). k = js ''input'') b)
            \<and> fst (deepseek_route NODE_ENV True vendor startTime now stamp b) = [JStr s]
            \<and> fst (gemini_route NODE_ENV True vendor startTime now stamp b) = [JStr s]"
    if ok: "field_of b ''input'' = JStr s" "1 \<le> length s" "length s \<le> 10000"
  proof -
    have f: "field_of (filter (\<lambda>(k, v). k = js ''input'') b) ''input'' = JStr s"
      using ok(1) by (simp add: field_of_filter)
    have "fst (deepseek_route NODE_ENV True vendor startTime now stamp b) = [JStr s]"
      unfolding deepseek_route_def validateDeepSeek_def
      by (rule route_accepted [where validator = "validate ''deepseek''",
            OF validate_accepts [OF ds ok] f deepseek_handler_guarded_calls])
    moreover have "fst (gemini_route NODE_ENV True vendor startTime now stamp b) = [JStr s]"
      unfolding gemini_route_def validateGemini_def
      by (rule route_accepted [where validator = "validate ''gemini''",
            OF validate_accepts [OF gm ok] f gemini_handler_calls])
    ultimately show ?thesis using validate_accepts [OF assms ok] by simp
  qed
  have rejected: "fst (deepseek_route NODE_ENV admitted vendor startTime now stamp b) = []
            \<and> fst (gemini_route NODE_ENV admitted vendor startTime now stamp b) = []"
    if r1: "validate ''deepseek'' b = Respond r1" and r2: "validate ''gemini'' b = Respond r2"
    for r1 r2
    unfolding deepseek_route_def gemini_route_def validateDeepSeek_def validateGemini_def
    using route_rejected [where validator = "validate ''deepseek''", OF r1]
      route_rejected [where validator = "validate ''gemini''", OF r2]
    by simp
  have reject: "fst (deepseek_route NODE_ENV admitted vendor startTime now stamp b) = []
            \<and> fst (gemini_route NODE_ENV admitted vendor startTime now stamp b) = []"
    if bad: "map_of b (js ''input'') = None \<or> field_of b ''input'' = JStr []
            \<or> (field_of b ''input'' = JStr s \<and> 10000 < length s)"
    using bad
  proof (elim disjE conjE)
    assume h: "map_of b (js ''input'') = None"
    show ?thesis by (rule rejected [OF validate_absent [OF ds h] validate_absent [OF gm h]])
  next
    assume h: "field_of b ''input'' = JStr []"
    show ?thesis by (rule rejected [OF validate_empty [OF ds h] validate_empty [OF gm h]])
  next
    assume h: "field_of b ''input'' = JStr s" "10000 < length s"
    show ?thesis by (rule rejected [OF validate_long [OF ds h] validate_long [OF gm h]])
  qed
  have c1: "field_of b ''input'' = JStr s \<and> 1 \<le> length s \<and> length s \<le> 10000 \<longrightarrow>
            validate schemaName b = Next (filter (\<lambda>(k, v). k = js ''input'') b)
            \<and> fst (deepseek_route NODE_ENV True vendor startTime now stamp b) = [JStr s]
            \<and> fst (gemini_route NODE_ENV True vendor startTime now stamp b) = [JStr s]"
    using accept by (intro impI) (elim conjE)
  have c2: "map_of b (js ''input'') = None \<longrightarrow>
            validate schemaName b = Respond (field_rejection ''input'' ''Input is required'')"
    using validate_absent [OF assms] by (intro impI)
  have c3: "field_of b ''input'' = JStr [] \<longrightarrow>
            validate schemaName b = Respond (field_rejection ''input'' ''Input cannot be empty'')"
    using validate_empty [OF assms] by (intro impI)
  have c4: "field_of b ''input'' = JStr s \<and> 10000 < length s \<longrightarrow>
            validate schemaName b
              = Respond (field_rejection ''input'' ''Input cannot exceed 10,000 characters'')"
    using validate_long [OF assms] by (intro impI) (elim conjE)
  have c5: "map_of b (js ''input'') = None \<or> field_of b ''input'' = JStr []
            \<or> (field_of b ''input'' = JStr s \<and> 10000 < length s) \<longrightarrow>
            fst (deepseek_route NODE_ENV admitted vendor startTime now stamp b) = []
            \<and> fst (gemini_route NODE_ENV admitted vendor startTime now stamp b) = []"
    using reject by (intro impI)
  show ?thesis by (intro conjI c1 c2 c3 c4 c5)
qed

lemma length_long_input: "length long_input = 10001"
  unfolding long_input_def by (rule length_replicate)

theorem validate_input_bounds_witness:
  "validate ''deepseek'' [(js ''input'', str ''hello''), (js ''extra'', JNum 1)]
     = Next [(js ''input'', str ''hello'')]
   \<and> validate ''gemini'' [(js ''extra'', JNum 1)]
       = Respond (field_rejection ''input'' ''Input is required'')
   \<and> validate ''deepseek'' [(js ''input'', JStr [])]
       = Respond (field_rejection ''input'' ''Input cannot be empty'')
   \<and> validate ''gemini'' [(js ''input'', JStr long_input)]
       = Respond (field_rejection ''input'' ''Input cannot exceed 10,000 characters'')
   \<and> fst (deepseek_route None True echo_provider 100 130 (js ''2024-01-01T00:00:00.000Z'')
            [(js ''input'', JStr long_input)]) = []"
proof -
  have a: "validate ''deepseek'' [(js ''input'', str ''hello''), (js ''extra'', JNum 1)]
     = Next [(js ''input'', str ''hello'')]"
    using validate_input_bounds [of "''deepseek''"
        "[(js ''input'', str ''hello''), (js ''extra'', JNum 1)]" "js ''hello''"]
    by (simp add: field_of_def str_def js_def)
  have b: "validate ''gemini'' [(js ''extra'', JNum 1)]
       = Respond (field_rejection ''input'' ''Input is required'')"
    using validate_input_bounds [of "''gemini''" "[(js ''extra'', JNum 1)]" "[]"]
    by (simp add: js_def)
  have c: "validate ''deepseek'' [(js ''input'', JStr [])]
       = Respond (field_rejection ''input'' ''Input cannot be empty'')"
    using validate_input_bounds [of "''deepseek''" "[(js ''input'', JStr [])]" "[]"]
    by (simp add: field_of_def)
  have d: "validate ''gemini'' [(js ''input'', JStr long_input)]
       = Respond (field_rejection ''input'' ''Input cannot exceed 10,000 characters'')
   \<and> fst (deepseek_route None True echo_provider 100 130 (js ''2024-01-01T00:00:00.000Z'')
            [(js ''input'', JStr long_input)]) = []"
    using validate_input_bounds [of "''gemini''" "[(js ''input'', JStr long_input)]"
        long_input None echo_provider 100 130 "js ''2024-01-01T00:00:00.000Z''" True]
    by (simp add: field_of_def length_long_input)
  show ?thesis using a b c d by simp
qed

text \<open>
  C9. Under the schemas \<open>deepseek\<close> and \<open>gemini\<close>: validating again a body that
  validation has accepted and cut down to the schema's fields accepts it and leaves it as
  it is, the same fields in the same order with the same values. The accepted body is the
  original's \<open>input\<close> field, so nothing of the schema is lost.
\<close>

theorem validate_idempotent:
  assumes "schemaName = ''deepseek'' \<or> schemaName = ''gemini''"
    and "validate schemaName b = Next v"
  shows "validate schemaName v = Next v
         \<and> v = filter (\<lambda>(k, v). k = js ''input'') b
         \<and> field_of v ''input'' = field_of b ''input''"
proof -
  note c = validate_Next_cases [OF assms(2)]
  show ?thesis using c validate_input [OF assms(1), of v] by (simp add: field_of_filter)
qed

theorem validate_idempotent_witness:
  "validate ''deepseek'' [(js ''input'', str ''hello'')] = Next [(js ''input'', str ''hello'')]"
proof -
  have first: "validate ''deepseek'' [(js ''a'', JNull), (js ''input'', str ''hello'')]
                 = Next [(js ''input'', str ''hello'')]"
    by (simp add: validate_def schemas_def joi_validate_def joi_string_def input_rule_def
        known_key_def field_of_def str_def js_def)
  have name: "''deepseek'' = ''deepseek'' \<or> ''deepseek'' = ''gemini''" by simp
  show ?thesis using validate_idempotent [OF name first] by simp
qed

section \<open>Rate limiter admission: properties\<close>

lemma admit_in_window:
  assumes "s k = Some \<lparr> window_start = t0, hits = c \<rparr>" and "t < t0 + windowMs l"
    and "c \<le> max_limit l"
  shows "fst (admit l t k s) = (c < max_limit l)"
    and "snd (admit l t k s) k
           = Some \<lparr> window_start = t0, hits = min (max_limit l) (Suc c) \<rparr>"
  using assms by (auto simp: admit_def current_window_def Let_def)

lemma map_upt_shift: "map f [0..<Suc n] = f 0 # map (\<lambda>i. f (Suc i)) [0..<n]"
  by (simp add: map_upt_Suc del: upt_Suc)

lemma admit_all_in_window:
  "s k = Some \<lparr> window_start = t0, hits = c \<rparr> \<Longrightarrow> \<forall>t\<in>set ts. t < t0 + windowMs l \<Longrightarrow>
   c \<le> max_limit l \<Longrightarrow>
   fst (admit_all l k ts s) = map (\<lambda>i. c + i < max_limit l) [0..<length ts]
   \<and> snd (admit_all l k ts s) k
       = Some \<lparr> window_start = t0, hits = min (max_limit l) (c + length ts) \<rparr>"
proof (induction ts arbitrary: c s)
  case Nil
  then show ?case by simp
next
  case (Cons t ts)
  obtain a s' where step: "admit l t k s = (a, s')" by (cases "admit l t k s")
  have t: "t < t0 + windowMs l" using Cons.prems(2) by simp
  have a: "a = (c < max_limit l)"
    using admit_in_window(1) [where s = s and k = k, OF Cons.prems(1) t Cons.prems(3)] step
    by simp
  have s': "s' k = Some \<lparr> window_start = t0, hits = min (max_limit l) (Suc c) \<rparr>"
    using admit_in_window(2) [where s = s and k = k, OF Cons.prems(1) t Cons.prems(3)] step
    by simp
  have rest: "\<forall>t\<in>set ts. t < t0 + windowMs l" using Cons.prems(2) by simp
  have le: "min (max_limit l) (Suc c) \<le> max_limit l" by simp
  note ih = Cons.IH [where s = s', OF s' rest le]
  obtain as s'' where run: "admit_all l k ts s' = (as, s'')" by (cases "admit_all l k ts s'")
  have as: "as = map (\<lambda>i. c + Suc i < max_limit l) [0..<length ts]"
  proof -
    have "as = map (\<lambda>i. min (max_limit l) (Suc c) + i < max_limit l) [0..<length ts]"
      using ih run by simp
    also have "\<dots> = map (\<lambda>i. c + Suc i < max_limit l) [0..<length ts]"
      by (rule map_cong) auto
    finally show ?thesis .
  qed
  have fin: "s'' k = Some \<lparr> window_start = t0, hits = min (max_limit l) (c + length (t # ts)) \<rparr>"
  proof -
    have "min (max_limit l) (min (max_limit l) (Suc c) + length ts)
            = min (max_limit l) (c + length (t # ts))" by auto
    then show ?thesis using ih run by simp
  qed
  have "map (\<lambda>i. c + i < max_limit l) [0..<length (t # ts)]
          = (c < max_limit l) # map (\<lambda>i. c + Suc i < max_limit l) [0..<length ts]"
    using map_upt_shift [of "\<lambda>i. c + i < max_limit l" "length ts"] by simp
  then show ?case using step run a as fin by simp
qed

lemma admit_fresh:
  "s k = None \<Longrightarrow> admit l t0 k s = admit l t0 k (s(k \<mapsto> \<lparr> window_start = t0, hits = 0 \<rparr>))"
  by (simp add: admit_def current_window_def Let_def)

lemma admit_all_fresh:
  assumes "s k = None" and "0 < windowMs l" and "\<forall>t\<in>set ts. t < t0 + windowMs l"
  shows "fst (admit_all l k (t0 # ts) s) = map (\<lambda>i. i < max_limit l) [0..<Suc (length ts)]"
    and "snd (admit_all l k (t0 # ts) s) k
           = Some \<lparr> window_start = t0, hits = min (max_limit l) (Suc (length ts)) \<rparr>"
proof -
  let ?s0 = "s(k \<mapsto> \<lparr> window_start = t0, hits = 0 \<rparr>)"
  have eq: "admit_all l k (t0 # ts) s = admit_all l k (t0 # ts) ?s0"
    using admit_fresh [where s = s and k = k, OF assms(1)] by simp
  have "?s0 k = Some \<lparr> window_start = t0, hits = 0 \<rparr>" by simp
  moreover have "\<forall>t\<in>set (t0 # ts). t < t0 + windowMs l" using assms(2,3) by simp
  ultimately have r:
    "fst (admit_all l k (t0 # ts) ?s0) = map (\<lambda>i. 0 + i < max_limit l) [0..<length (t0 # ts)]
     \<and> snd (admit_all l k (t0 # ts) ?s0) k
         = Some \<lparr> window_start = t0, hits = min (max_limit l) (0 + length (t0 # ts)) \<rparr>"
    by (rule admit_all_in_window) simp
  show "fst (admit_all l k (t0 # ts) s) = map (\<lambda>i. i < max_limit l) [0..<Suc (length ts)]"
    using r eq by simp
  show "snd (admit_all l k (t0 # ts) s) k
           = Some \<lparr> window_start = t0, hits = min (max_limit l) (Suc (length ts)) \<rparr>"
    using r eq by simp
qed

lemma admit_after_window:
  assumes "s k = Some \<lparr> window_start = t0, hits = c \<rparr>" and "t0 + windowMs l \<le> t"
    and "0 < max_limit l"
  shows "admit l t k s = (True, s(k \<mapsto> \<lparr> window_start = t, hits = 1 \<rparr>))"
  using assms by (simp add: admit_def current_window_def Let_def)

lemma admit_step:
  "fst (admit l t k s) = (hits (current_window l t (s k)) < max_limit l)"
  "snd (admit l t k s) k
     = Some ((current_window l t (s k))
              \<lparr> hits := hits (current_window l t (s k)) + (if fst (admit l t k s) then 1 else 0) \<rparr>)"
  by (auto simp: admit_def Let_def)

lemma admit_other_key: "k' \<noteq> k \<Longrightarrow> snd (admit l t k s) k' = s k'"
  by (simp add: admit_def Let_def)

lemma tier_limiter_options:
  "max_limit (tier_limiter loaded_iso tier) = tier_max tier"
  "windowMs (tier_limiter loaded_iso tier) = 15 * 60 * 1000"
  by (cases tier; simp add: authLimiter_def chainLimiter_def aiLimiter_def generalLimiter_def
      make_limiter_def)+

lemma tier_max_pos: "0 < tier_max tier"
  by (cases tier) simp_all

text \<open>
  C6. For every tier and client key, the limiter of the tier has a window of 15 minutes
  and the maximum 5 (auth), 10 (chain), 30 (single-provider AI) or 100 (general). A call
  is admitted exactly when the counter of the current window is below the maximum; an
  admitted call adds one to the counter and a rejected call leaves it; the records of
  other keys are untouched. From a key with no
  record, the first call opens the window with the counter at 0, and of the calls made
  within that window the first \<open>max\<close> are admitted and every later one is rejected. The
  next call made once the window has elapsed is admitted and opens a new window with the
  counter at 1. For the auth tier: of six calls in one window the sixth is rejected, and a
  sixth call made after the window has elapsed is admitted.
\<close>

theorem limiter_window_state_machine:
  assumes "s clientKey = None"
    and "\<forall>t\<in>set ts. t < t0 + windowMs (tier_limiter loaded_iso tier)"
  shows "windowMs (tier_limiter loaded_iso tier) = 15 * 60 * 1000
       \<and> max_limit (tier_limiter loaded_iso tier) = tier_max tier
       \<and> fst (admit (tier_limiter loaded_iso tier) now clientKey s')
           = (hits (current_window (tier_limiter loaded_iso tier) now (s' clientKey)) < tier_max tier)
       \<and> snd (admit (tier_limiter loaded_iso tier) now clientKey s') clientKey
           = Some ((current_window (tier_limiter loaded_iso tier) now (s' clientKey))
                    \<lparr> hits := hits (current_window (tier_limiter loaded_iso tier) now (s' clientKey))
                         + (if fst (admit (tier_limiter loaded_iso tier) now clientKey s') then 1 else 0) \<rparr>)
       \<and> (otherKey \<noteq> clientKey \<longrightarrow>
            snd (admit (tier_limiter loaded_iso tier) now clientKey s') otherKey = s' otherKey)
       \<and> fst (admit_all (tier_limiter loaded_iso tier) clientKey (t0 # ts) s)
           = map (\<lambda>i. i < tier_max tier) [0..<Suc (length ts)]
       \<and> snd (admit_all (tier_limiter loaded_iso tier) clientKey (t0 # ts) s) clientKey
           = Some \<lparr> window_start = t0, hits = min (tier_max tier) (Suc (length ts)) \<rparr>
       \<and> (t0 + windowMs (tier_limiter loaded_iso tier) \<le> t' \<longrightarrow>
            admit (tier_limiter loaded_iso tier) t' clientKey
                (snd (admit_all (tier_limiter loaded_iso tier) clientKey (t0 # ts) s))
              = (True, (snd (admit_all (tier_limiter loaded_iso tier) clientKey (t0 # ts) s))
                         (clientKey \<mapsto> \<lparr> window_start = t', hits = 1 \<rparr>)))"
proof -
  let ?l = "tier_limiter loaded_iso tier"
  note opts = tier_limiter_options [of loaded_iso tier]
  have w: "0 < windowMs ?l" using opts(2) by simp
  note run = admit_all_fresh [where s = s and k = clientKey, OF assms(1) w assms(2)]
  have m: "0 < max_limit ?l" using opts(1) tier_max_pos [of tier] by simp
  have after: "admit ?l t' clientKey (snd (admit_all ?l clientKey (t0 # ts) s))
              = (True, (snd (admit_all ?l clientKey (t0 # ts) s))
                         (clientKey \<mapsto> \<lparr> window_start = t', hits = 1 \<rparr>))"
    if "t0 + windowMs ?l \<le> t'"
    by (rule admit_after_window [where s = "snd (admit_all ?l clientKey (t0 # ts) s)"
          and k = clientKey, OF run(2) that m])
  have c1: "fst (admit ?l now clientKey s')
              = (hits (current_window ?l now (s' clientKey)) < tier_max tier)"
    using admit_step(1) [of ?l now clientKey s'] opts(1) by simp
  have c2: "fst (admit_all ?l clientKey (t0 # ts) s)
              = map (\<lambda>i. i < tier_max tier) [0..<Suc (length ts)]"
    using run(1) opts(1) by simp
  have c3: "snd (admit_all ?l clientKey (t0 # ts) s) clientKey
              = Some \<lparr> window_start = t0, hits = min (tier_max tier) (Suc (length ts)) \<rparr>"
    using run(2) opts(1) by simp
  have c4: "t0 + windowMs ?l \<le> t' \<longrightarrow>
            admit ?l t' clientKey (snd (admit_all ?l clientKey (t0 # ts) s))
              = (True, (snd (admit_all ?l clientKey (t0 # ts) s))
                         (clientKey \<mapsto> \<lparr> window_start = t', hits = 1 \<rparr>))"
    using after by (intro impI)
  have c5: "otherKey \<noteq> clientKey \<longrightarrow> snd (admit ?l now clientKey s') otherKey = s' otherKey"
    using admit_other_key [of otherKey clientKey ?l now s'] by (intro impI)
  show ?thesis
    by (intro conjI opts(2) opts(1) c1 admit_step(2) c5 c2 c3 c4)
qed

theorem limiter_window_state_machine_witness:
  "fst (admit_all (authLimiter (js ''2024-01-01T00:00:00.000Z'')) (js ''10.0.0.1'')
          [1000, 2000, 3000, 4000, 5000, 6000] Map.empty)
     = [True, True, True, True, True, False]
   \<and> fst (admit (authLimiter (js ''2024-01-01T00:00:00.000Z'')) 901000 (js ''10.0.0.1'')
            (snd (admit_all (authLimiter (js ''2024-01-01T00:00:00.000Z'')) (js ''10.0.0.1'')
                    [1000, 2000, 3000, 4000, 5000] Map.empty)))"
proof -
  let ?l = "authLimiter (js ''2024-01-01T00:00:00.000Z'')"
  let ?k = "js ''10.0.0.1''"
  have l: "tier_limiter (js ''2024-01-01T00:00:00.000Z'') AuthTier = ?l" by simp
  have w: "windowMs ?l = 900000" by (simp add: authLimiter_def)
  have fresh: "(Map.empty :: limiter_state) ?k = None" by simp
  have six: "\<forall>t\<in>set [2000, 3000, 4000, 5000, 6000 :: nat].
               t < 1000 + windowMs (tier_limiter (js ''2024-01-01T00:00:00.000Z'') AuthTier)"
    using w by simp
  have five: "\<forall>t\<in>set [2000, 3000, 4000, 5000 :: nat].
               t < 1000 + windowMs (tier_limiter (js ''2024-01-01T00:00:00.000Z'') AuthTier)"
    using w by simp
  have a: "fst (admit_all ?l ?k [1000, 2000, 3000, 4000, 5000, 6000] Map.empty)
             = map (\<lambda>i. i < tier_max AuthTier) [0..<Suc (length [2000, 3000, 4000, 5000, 6000 :: nat])]"
    using limiter_window_state_machine [where s = Map.empty and clientKey = ?k, OF fresh six]
    unfolding l by blast
  have b: "1000 + windowMs ?l \<le> 901000 \<longrightarrow>
            admit ?l 901000 ?k (snd (admit_all ?l ?k [1000, 2000, 3000, 4000, 5000] Map.empty))
              = (True, (snd (admit_all ?l ?k [1000, 2000, 3000, 4000, 5000] Map.empty))
                         (?k \<mapsto> \<lparr> window_start = 901000, hits = 1 \<rparr>))"
    using limiter_window_state_machine [where s = Map.empty and clientKey = ?k and t' = 901000,
        OF fresh five]
    unfolding l by blast
  have a': "map (\<lambda>i. i < tier_max AuthTier) [0..<Suc (length [2000, 3000, 4000, 5000, 6000 :: nat])]
              = [True, True, True, True, True, False]"
    by (simp add: upt_rec)
  have "fst (admit ?l 901000 ?k (snd (admit_all ?l ?k [1000, 2000, 3000, 4000, 5000] Map.empty)))"
    using b w by simp
  then show ?thesis using a a' by simp
qed

section \<open>The envelope: properties\<close>

lemma metadata_of_chain_success:
  "opt_prop (body (chain_success a b t0 t1 stamp)) ''metadata'' = metadata t0 t1 stamp"
  by (simp add: chain_success_def obj_def js_def)

lemma metadata_of_chain_catch:
  "opt_prop (body (chain_catch e t0 t1 stamp)) ''metadata'' = metadata t0 t1 stamp"
  by (cases "(e, t0, t1, stamp)" rule: chain_catch.cases)
    (simp_all add: chain_generic_failure_def obj_def js_def)

lemma metadata_of_single_success:
  "opt_prop (body (single_success a t0 t1 stamp)) ''metadata'' = metadata t0 t1 stamp"
  by (simp add: single_success_def obj_def js_def)

lemma metadata_of_single_failure:
  "opt_prop (body (single_failure label e t0 t1 stamp)) ''metadata'' = metadata t0 t1 stamp"
  by (simp add: single_failure_def obj_def js_def)

lemma metadata_envelope:
  "opt_prop b ''metadata'' = metadata t0 t1 stamp \<Longrightarrow> has_envelope b"
  by (simp add: has_envelope_def metadata_def obj_def js_def)

lemma chain_handler_metadata:
  "opt_prop (body (snd (chain_handler scira deepseek t0 t1 stamp input))) ''metadata''
     = metadata t0 t1 stamp"
  by (simp add: chain_handler_def chain_try_def metadata_of_chain_success metadata_of_chain_catch
      split: sum.splits prod.splits)

lemma deepseek_handler_metadata:
  "opt_prop (body (snd (deepseek_handler openai t0 t1 stamp input))) ''metadata''
     = metadata t0 t1 stamp"
  by (simp add: deepseek_handler_def Let_def metadata_of_single_success metadata_of_single_failure
      split: sum.splits)

lemma deepseek_handler_guarded_metadata:
  "opt_prop (body (snd (deepseek_handler_guarded openai t0 t1 stamp input))) ''metadata''
     = metadata t0 t1 stamp"
  by (simp add: deepseek_handler_guarded_def Let_def metadata_of_single_success
      metadata_of_single_failure split: sum.splits)

lemma gemini_handler_metadata:
  "opt_prop (body (snd (gemini_handler gemini t0 t1 stamp input))) ''metadata''
     = metadata t0 t1 stamp"
  by (simp add: gemini_handler_def metadata_of_single_success metadata_of_single_failure
      split: sum.splits)

lemma validate_no_metadata:
  "validate schemaName b = Respond r \<Longrightarrow> opt_prop (body r) ''metadata'' = JUndefined"
  by (auto simp: validate_def obj_def js_def split: option.splits prod.splits if_splits)

lemma limiter_no_metadata:
  "l = generalLimiter \<or> l = aiLimiter \<or> l = chainLimiter \<or> l = devLimiter \<Longrightarrow>
   opt_prop (body (limiter_rejection l)) ''metadata'' = JUndefined"
  by (auto simp: limiter_rejection_def generalLimiter_def aiLimiter_def chainLimiter_def
      devLimiter_def make_limiter_def limiter_body_def obj_def js_def)

lemma auth_limiter_metadata:
  "opt_prop (body (limiter_rejection (authLimiter loaded_iso))) ''metadata''
     = obj [(''timestamp'', JStr loaded_iso)]"
  by (simp add: limiter_rejection_def authLimiter_def obj_def js_def)

lemma auth_limiter_no_envelope:
  "\<not> has_envelope (body (limiter_rejection (authLimiter loaded_iso)))"
  by (simp add: limiter_rejection_def authLimiter_def has_envelope_def obj_def js_def)

lemma undefined_no_envelope: "opt_prop b ''metadata'' = JUndefined \<Longrightarrow> \<not> has_envelope b"
  by (simp add: has_envelope_def)

lemma axios_handler_metadata:
  "opt_prop (body (snd (axios_handler label vendor t0 t1 stamp input))) ''metadata''
     = metadata t0 t1 stamp"
  by (simp add: axios_handler_def plain_failure_def metadata_of_single_success obj_def js_def
      split: sum.splits)

lemma generateResponse_metadata:
  "generateResponse model s0 s1 sstamp prompt = Inr result \<Longrightarrow>
   set_field (result_metadata result) ''processingTime'' (JNum n)
     = [(js ''model'', str modelName), (js ''processingTime'', JNum n),
        (js ''timestamp'', JStr sstamp), (js ''usage'', field_of (result_metadata result) ''usage'')]"
  by (auto simp: generateResponse_def set_field_def field_of_def js_def
      split: sum.splits prod.splits)

lemma gemini_service_handler_envelope:
  "has_envelope (body (gemini_service_handler geminiService s0 s1 sstamp t0 t1 stamp input))"
proof (cases geminiService)
  case None
  then show ?thesis
    by (simp add: gemini_service_handler_def has_envelope_def metadata_def obj_def js_def)
next
  case (Some model)
  show ?thesis
  proof (cases "generateResponse model s0 s1 sstamp (JStr input)")
    case (Inl error)
    with Some show ?thesis
      by (simp add: gemini_service_handler_def
          metadata_envelope [OF metadata_of_single_failure])
  next
    case (Inr result)
    have "has_envelope (obj [(''output'', result_output result),
            (''metadata'', JObj (set_field (result_metadata result) ''processingTime''
                                   (JNum (t1 - t0))))])"
      unfolding generateResponse_metadata [OF Inr]
      by (simp add: has_envelope_def obj_def js_def)
    with Some Inr show ?thesis
      by (simp add: gemini_service_handler_def
          metadata_envelope [OF metadata_of_single_failure] split: sum.splits)
  qed
qed

text \<open>
  C7 (as amended). Every response of the handlers of the AI endpoints (the chain, Scira,
  the DeepSeek handlers and the Gemini handlers), success or failure, carries a
  \<open>metadata\<close> object with \<open>processingTime\<close> (a clock reading minus \<open>startTime\<close>, in
  milliseconds) and \<open>timestamp\<close> (a value of \<open>toISOString()\<close>). The responses of the
  validator (400 and 500) and the 429 responses of the four limiters of the rate-limit
  module (general, AI, chain, development) carry no \<open>metadata\<close> at all. The 429
  response of the auth limiter, which has no handler of its own and answers with its
  message, carries a \<open>metadata\<close> that holds only the \<open>timestamp\<close> taken when the
  module was loaded, and no \<open>processingTime\<close>.
\<close>

theorem handler_envelope:
  "has_envelope (body (snd (chain_handler scira deepseek startTime now stamp input)))
   \<and> opt_prop (body (snd (chain_handler scira deepseek startTime now stamp input))) ''metadata''
       = obj [(''processingTime'', JNum (now - startTime)), (''timestamp'', JStr stamp)]
   \<and> has_envelope (body (snd (scira_handler vendor startTime now stamp input)))
   \<and> has_envelope (body (snd (deepseek_axios_handler vendor startTime now stamp input)))
   \<and> has_envelope (body (gemini_service_handler geminiService svcStart svcNow svcStamp
                             startTime now stamp input))
   \<and> has_envelope (body (snd (deepseek_handler vendor startTime now stamp prompt)))
   \<and> has_envelope (body (snd (deepseek_handler_guarded vendor startTime now stamp prompt)))
   \<and> has_envelope (body (snd (gemini_handler vendor startTime now stamp prompt)))
   \<and> (validate schemaName b = Respond r \<longrightarrow>
        opt_prop (body r) ''metadata'' = JUndefined \<and> \<not> has_envelope (body r))
   \<and> (l = generalLimiter \<or> l = aiLimiter \<or> l = chainLimiter \<or> l = devLimiter \<longrightarrow>
        opt_prop (body (limiter_rejection l)) ''metadata'' = JUndefined
        \<and> \<not> has_envelope (body (limiter_rejection l)))
   \<and> opt_prop (body (limiter_rejection (authLimiter loaded_iso))) ''metadata''
       = obj [(''timestamp'', JStr loaded_iso)]
   \<and> \<not> has_envelope (body (limiter_rejection (authLimiter loaded_iso)))"
proof -
  have c1: "has_envelope (body (snd (chain_handler scira deepseek startTime now stamp input)))"
    by (rule metadata_envelope [OF chain_handler_metadata])
  have c2: "opt_prop (body (snd (chain_handler scira deepseek startTime now stamp input))) ''metadata''
       = obj [(''processingTime'', JNum (now - startTime)), (''timestamp'', JStr stamp)]"
    using chain_handler_metadata [of scira deepseek startTime now stamp input]
    by (simp add: metadata_def)
  have a1: "has_envelope (body (snd (scira_handler vendor startTime now stamp input)))"
    unfolding scira_handler_def by (rule metadata_envelope [OF axios_handler_metadata])
  have a2: "has_envelope (body (snd (deepseek_axios_handler vendor startTime now stamp input)))"
    unfolding deepseek_axios_handler_def by (rule metadata_envelope [OF axios_handler_metadata])
  have c3: "has_envelope (body (snd (deepseek_handler vendor startTime now stamp prompt)))"
    by (rule metadata_envelope [OF deepseek_handler_metadata])
  have c4: "has_envelope (body (snd (deepseek_handler_guarded vendor startTime now stamp prompt)))"
    by (rule metadata_envelope [OF deepseek_handler_guarded_metadata])
  have c5: "has_envelope (body (snd (gemini_handler vendor startTime now stamp prompt)))"
    by (rule metadata_envelope [OF gemini_handler_metadata])
  have c6: "validate schemaName b = Respond r \<longrightarrow>
        opt_prop (body r) ''metadata'' = JUndefined \<and> \<not> has_envelope (body r)"
    using validate_no_metadata [of schemaName b r] undefined_no_envelope [of "body r"]
    by (intro impI conjI) simp_all
  have c7: "l = generalLimiter \<or> l = aiLimiter \<or> l = chainLimiter \<or> l = devLimiter \<longrightarrow>
        opt_prop (body (limiter_rejection l)) ''metadata'' = JUndefined
        \<and> \<not> has_envelope (body (limiter_rejection l))"
    using limiter_no_metadata [of l] undefined_no_envelope [of "body (limiter_rejection l)"]
    by (intro impI conjI) simp_all
  show ?thesis
    by (intro conjI c1 c2 a1 a2 gemini_service_handler_envelope c3 c4 c5 c6 c7
        auth_limiter_metadata auth_limiter_no_envelope)
qed

theorem handler_envelope_witness:
  "has_envelope (body (snd (chain_handler (const_provider (str ''X'')) echo_provider
       100 130 (js ''2024-01-01T00:00:00.000Z'') (js ''hello''))))
   \<and> \<not> has_envelope (body (field_rejection ''input'' ''Input is required''))
   \<and> \<not> has_envelope (body (limiter_rejection aiLimiter))"
proof -
  have v: "validate ''deepseek'' [] = Respond (field_rejection ''input'' ''Input is required'')"
    by (rule validate_absent) simp_all
  note h = handler_envelope [where scira = "const_provider (str ''X'')"
      and deepseek = echo_provider and startTime = 100 and now = 130
      and stamp = "js ''2024-01-01T00:00:00.000Z''" and input = "js ''hello''"
      and schemaName = "''deepseek''" and b = "[]"
      and r = "field_rejection ''input'' ''Input is required''" and l = aiLimiter]
  show ?thesis using h v by simp
qed

text \<open>
  Against C7 as the specification states it: the rejection of the chain limiter (429) and the rejection
  of the validator for a body without \<open>input\<close> (400) have no \<open>metadata\<close>.
\<close>

theorem rejection_without_envelope:
  "handler chainLimiter
     = Some \<lparr> status = 429,
              body = obj [(''error'',
                           str ''Too many chain requests from this IP, please try again later.''),
                          (''retryAfter'', str ''15 minutes'')] \<rparr>
   \<and> \<not> has_envelope (obj [(''error'',
                           str ''Too many chain requests from this IP, please try again later.''),
                          (''retryAfter'', str ''15 minutes'')])
   \<and> validate ''deepseek'' []
       = Respond \<lparr> status = 400,
                   body = obj [(''error'', str ''Validation failed''),
                               (''details'', JArr [obj [(''field'', str ''input''),
                                                       (''message'', str ''Input is required'')]])] \<rparr>
   \<and> \<not> has_envelope (obj [(''error'', str ''Validation failed''),
                           (''details'', JArr [obj [(''field'', str ''input''),
                                                   (''message'', str ''Input is required'')]])])"
proof -
  have a: "handler chainLimiter
     = Some \<lparr> status = 429,
              body = obj [(''error'',
                           str ''Too many chain requests from this IP, please try again later.''),
                          (''retryAfter'', str ''15 minutes'')] \<rparr>"
    by (simp add: chainLimiter_def make_limiter_def limiter_body_def)
  have b: "\<not> has_envelope (obj [(''error'',
                           str ''Too many chain requests from this IP, please try again later.''),
                          (''retryAfter'', str ''15 minutes'')])"
    by (simp add: has_envelope_def obj_def js_def)
  have c: "validate ''deepseek'' []
       = Respond \<lparr> status = 400,
                   body = obj [(''error'', str ''Validation failed''),
                               (''details'', JArr [obj [(''field'', str ''input''),
                                                       (''message'', str ''Input is required'')]])] \<rparr>"
    using validate_absent [of "''deepseek''" "[]"] by (simp add: field_rejection_def)
  have d: "\<not> has_envelope (obj [(''error'', str ''Validation failed''),
                           (''details'', JArr [obj [(''field'', str ''input''),
                                                   (''message'', str ''Input is required'')]])])"
    by (simp add: has_envelope_def obj_def js_def)
  show ?thesis by (intro conjI a b c d)
qed

end
